(* ===== verification/Prelude.thy ===== *)
theory Prelude
  imports Complex_Main "HOL-Library.Sublist" "HOL-Library.List_Lexorder" "HOL-Library.Char_ord"
begin

text \<open>
  Shared vocabulary of the development: raising computations as values of a sum type
  (\<open>Inl\<close> the exception), the Python string builtins the program calls
  (\<open>str.lower\<close>, \<open>in\<close>, \<open>startswith\<close>, \<open>replace\<close>, \<open>strip\<close>, \<open>str(int)\<close>),
  each executable and related by a lemma to its reference definition in the library, and
  the generic lemmas on lists and sums the component theories share. Strings are
  \<open>char list\<close>: a non-ASCII character is its UTF-8 bytes.
\<close>

named_theorems exc_simps "characteristic equations of raising computations"

subsection \<open>Raising computations\<close>

definition exc_bind :: "'e + 'a \<Rightarrow> ('a \<Rightarrow> 'e + 'b) \<Rightarrow> 'e + 'b" where
  "exc_bind m f = (case m of Inl e \<Rightarrow> Inl e | Inr x \<Rightarrow> f x)"

text \<open>A list comprehension whose body may raise: evaluated left to right, the first
  exception aborts.\<close>

fun exc_map :: "('a \<Rightarrow> 'e + 'b) \<Rightarrow> 'a list \<Rightarrow> 'e + 'b list" where
  "exc_map f [] = Inr []"
| "exc_map f (x # xs) = exc_bind (f x) (\<lambda>y. exc_bind (exc_map f xs) (\<lambda>ys. Inr (y # ys)))"

text \<open>\<open>[x for x in xs if p(x)]\<close> with a condition that may raise.\<close>

fun exc_filter :: "('a \<Rightarrow> 'e + bool) \<Rightarrow> 'a list \<Rightarrow> 'e + 'a list" where
  "exc_filter p [] = Inr []"
| "exc_filter p (x # xs) =
     exc_bind (p x) (\<lambda>b. exc_bind (exc_filter p xs) (\<lambda>ys. Inr (if b then x # ys else ys)))"

lemma exc_bind_Inl [simp, exc_simps]: "exc_bind (Inl e) f = Inl e"
  by (simp add: exc_bind_def)

lemma exc_bind_Inr [simp, exc_simps]: "exc_bind (Inr x) f = f x"
  by (simp add: exc_bind_def)

lemma exc_bind_eq_Inr [exc_simps]:
  "exc_bind m f = Inr y \<longleftrightarrow> (\<exists>x. m = Inr x \<and> f x = Inr y)"
  by (cases m) auto

lemma exc_bind_eq_Inl [exc_simps]:
  "exc_bind m f = Inl e \<longleftrightarrow> (m = Inl e \<or> (\<exists>x. m = Inr x \<and> f x = Inl e))"
  by (cases m) auto

lemma exc_filter_total:
  "(\<forall>x\<in>set xs. p x = Inr (q x)) \<Longrightarrow> exc_filter p xs = Inr (filter q xs)"
  by (induction xs) auto

lemma exc_filter_Inr_subset:
  "exc_filter p xs = Inr ys \<Longrightarrow> set ys \<subseteq> set xs"
  by (induction xs arbitrary: ys) (auto simp: exc_bind_eq_Inr split: if_splits)

lemma exc_filter_Inr_sat:
  "exc_filter p xs = Inr ys \<Longrightarrow> y \<in> set ys \<Longrightarrow> p y = Inr True"
  by (induction xs arbitrary: ys) (auto simp: exc_bind_eq_Inr split: if_splits)

lemma exc_map_total:
  "(\<forall>x\<in>set xs. f x = Inr (g x)) \<Longrightarrow> exc_map f xs = Inr (map g xs)"
  by (induction xs) auto

lemma exc_map_Inr_all2:
  "(\<forall>x\<in>set xs. \<exists>y. f x = Inr y \<and> P x y) \<Longrightarrow> \<exists>ys. exc_map f xs = Inr ys \<and> list_all2 P xs ys"
  by (induction xs) fastforce+

lemma exc_map_Inr_length:
  "exc_map f xs = Inr ys \<Longrightarrow> length ys = length xs"
  by (induction xs arbitrary: ys) (auto simp: exc_bind_eq_Inr)

subsection \<open>Code points\<close>

text \<open>A Python \<open>str\<close> is a sequence of code points; here it is its UTF-8 bytes, so
  slicing and iteration group a start byte with the continuation bytes (\<open>10xxxxxx\<close>)
  that follow it.\<close>

definition utf8_cont :: "char \<Rightarrow> bool" where
  "utf8_cont c = (let n = (of_char c :: nat) in 128 \<le> n \<and> n < 192)"

text \<open>\<open>s[:n]\<close> on a string: the first \<open>n\<close> code points.\<close>

fun utf8_take :: "nat \<Rightarrow> string \<Rightarrow> string" where
  "utf8_take n [] = []"
| "utf8_take n (c # cs) =
     (if utf8_cont c then c # utf8_take n cs
      else if n = 0 then [] else c # utf8_take (n - 1) cs)"

function utf8_split :: "string \<Rightarrow> string list" where
  "utf8_split [] = []"
| "utf8_split (c # cs) = (c # takeWhile utf8_cont cs) # utf8_split (dropWhile utf8_cont cs)"
  by pat_completeness auto
termination
  by (relation "measure length") (auto simp: le_imp_less_Suc length_dropWhile_le)

text \<open>\<open>len(s)\<close>: the number of code points, the bytes that start one.\<close>

definition utf8_length :: "string \<Rightarrow> nat" where
  "utf8_length s = length (filter (\<lambda>c. \<not> utf8_cont c) s)"

lemma utf8_length_take: "utf8_length (utf8_take n s) \<le> n"
  by (induction n s rule: utf8_take.induct) (auto simp: utf8_length_def)

lemma utf8_take_ascii: "\<forall>c\<in>set s. \<not> utf8_cont c \<Longrightarrow> utf8_take n s = take n s"
  by (induction n s rule: utf8_take.induct) (auto simp: take_Cons')

lemma utf8_take_prefix: "prefix (utf8_take n s) s"
  by (induction n s rule: utf8_take.induct) auto

lemma utf8_split_ascii: "\<forall>c\<in>set s. \<not> utf8_cont c \<Longrightarrow> utf8_split s = map (\<lambda>c. [c]) s"
  by (induction s) (auto simp: takeWhile_eq_Nil_iff dropWhile_eq_self_iff)

lemma utf8_split_nonempty: "[] \<notin> set (utf8_split s)"
  by (induction s rule: utf8_split.induct) auto

lemma concat_utf8_split [simp]: "concat (utf8_split s) = s"
  by (induction s rule: utf8_split.induct) auto

subsection \<open>Python string builtins\<close>

text \<open>\<open>str.lower\<close>, code point by code point. The ASCII capitals become small
  letters; so do the two code points outside ASCII whose lower case contains an ASCII
  letter: the Kelvin sign U+212A (lower case \<open>k\<close>) and U+0130 (lower case \<open>i\<close>
  followed by U+0307). Every other code point is left as it is: its lower case is again
  outside ASCII, so the choice does not change which ASCII text a lower-cased string
  contains, the only use the program makes of \<open>lower()\<close>.\<close>

definition py_lower_char :: "char \<Rightarrow> char" where
  "py_lower_char c =
     (let n = (of_char c :: nat) in if 65 \<le> n \<and> n \<le> 90 then char_of (n + 32) else c)"

definition py_lower_cp :: "string \<Rightarrow> string" where
  "py_lower_cp cp =
     (if cp = [CHR 0xE2, CHR 0x84, CHR 0xAA] then ''k''
      else if cp = [CHR 0xC4, CHR 0xB0] then [CHR ''i'', CHR 0xCC, CHR 0x87]
      else map py_lower_char cp)"

definition py_lower :: "string \<Rightarrow> string" where
  "py_lower s = concat (map py_lower_cp (utf8_split s))"

text \<open>\<open>s.startswith(p)\<close>.\<close>

fun starts_with :: "string \<Rightarrow> string \<Rightarrow> bool" where
  "starts_with [] s = True"
| "starts_with (p # ps) [] = False"
| "starts_with (p # ps) (c # cs) = (p = c \<and> starts_with ps cs)"

text \<open>\<open>needle in hay\<close> on strings: a scan over the start positions of \<open>hay\<close>.\<close>

fun py_contains :: "string \<Rightarrow> string \<Rightarrow> bool" where
  "py_contains n [] = (n = [])"
| "py_contains n (c # cs) = (starts_with n (c # cs) \<or> py_contains n cs)"

lemma starts_with_prefix [simp]: "starts_with p s = prefix p s"
  by (induction p s rule: starts_with.induct) auto

text \<open>The scan decides the library's contiguous-sublist relation.\<close>

lemma py_contains_sublist: "py_contains n h = sublist n h"
  by (induction h) (auto simp: sublist_Cons_right)

lemma py_contains_middle:
  "py_contains n (a @ n @ b)"
  by (simp add: py_contains_sublist)

lemma py_contains_mono:
  "py_contains n h \<Longrightarrow> py_contains n (a @ h @ b)"
  unfolding py_contains_sublist by (metis sublist_appendI sublist_order.order.trans)

text \<open>\<open>s.replace(old, new)\<close>: non-overlapping occurrences, left to right.\<close>

function replace_nonempty :: "string \<Rightarrow> string \<Rightarrow> string \<Rightarrow> string" where
  "replace_nonempty old new [] = []"
| "replace_nonempty old new (c # cs) =
     (if old \<noteq> [] \<and> starts_with old (c # cs)
      then new @ replace_nonempty old new (drop (length old) (c # cs))
      else c # replace_nonempty old new cs)"
  by pat_completeness auto
termination
  by (relation "measure (\<lambda>(_, _, s). length s)") auto

definition py_replace :: "string \<Rightarrow> string \<Rightarrow> string \<Rightarrow> string" where
  "py_replace old new s =
     (if old = [] then new @ concat (map (\<lambda>c. c # new) s) else replace_nonempty old new s)"

lemma replace_nonempty_single_char:
  "replace_nonempty [x] new s = concat (map (\<lambda>c. if c = x then new else [c]) s)"
  by (induction s) auto

lemma py_replace_char_removes:
  "x \<notin> set new \<Longrightarrow> x \<notin> set (py_replace [x] new s)"
  by (induction s) (auto simp: py_replace_def replace_nonempty_single_char)

text \<open>\<open>str.strip()\<close> without argument removes the code points for which
  \<open>isspace()\<close> holds: the ASCII ones (tab to carriage return, the four separators 0x1c
  to 0x1f, space) and, in UTF-8, U+0085, U+00A0, U+1680, U+2000 to U+200A, U+2028,
  U+2029, U+202F, U+205F and U+3000.\<close>

definition py_isspace :: "char \<Rightarrow> bool" where
  "py_isspace c =
     (let n = (of_char c :: nat) in (9 \<le> n \<and> n \<le> 13) \<or> (28 \<le> n \<and> n \<le> 32))"

definition unicode_spaces :: "string list" where
  "unicode_spaces =
     [[CHR 0xC2, CHR 0x85], [CHR 0xC2, CHR 0xA0], [CHR 0xE1, CHR 0x9A, CHR 0x80]] @
     map (\<lambda>k. [CHR 0xE2, CHR 0x80, char_of (128 + k)]) [0..<11] @
     [[CHR 0xE2, CHR 0x80, CHR 0xA8], [CHR 0xE2, CHR 0x80, CHR 0xA9], [CHR 0xE2, CHR 0x80, CHR 0xAF],
      [CHR 0xE2, CHR 0x81, CHR 0x9F], [CHR 0xE3, CHR 0x80, CHR 0x80]]"

definition py_isspace_cp :: "string \<Rightarrow> bool" where
  "py_isspace_cp cp = (case cp of [c] \<Rightarrow> py_isspace c | _ \<Rightarrow> cp \<in> set unicode_spaces)"

definition py_strip :: "string \<Rightarrow> string" where
  "py_strip s =
     concat (rev (dropWhile py_isspace_cp (rev (dropWhile py_isspace_cp (utf8_split s)))))"

lemma dropWhile_all_sat:
  "(\<forall>x\<in>set (dropWhile P s). P x) \<longleftrightarrow> (\<forall>x\<in>set s. P x)"
  by (induction s) auto

lemma py_strip_empty_iff: "py_strip s = [] \<longleftrightarrow> (\<forall>cp\<in>set (utf8_split s). py_isspace_cp cp)"
proof -
  have "concat xs = [] \<longleftrightarrow> xs = []" if "[] \<notin> set xs" for xs :: "string list"
    using that by (induction xs) auto
  moreover have "[] \<notin> set (rev (dropWhile py_isspace_cp (rev (dropWhile py_isspace_cp (utf8_split s)))))"
    using utf8_split_nonempty [of s] by (metis set_dropWhileD set_rev)
  ultimately show ?thesis
    by (simp add: py_strip_def dropWhile_all_sat)
qed

text \<open>On a string of ASCII bytes the strip is the byte-wise one.\<close>

lemma py_strip_ascii:
  "\<forall>c\<in>set s. \<not> utf8_cont c \<Longrightarrow>
     py_strip s = rev (dropWhile py_isspace (rev (dropWhile py_isspace s)))"
proof -
  assume a: "\<forall>c\<in>set s. \<not> utf8_cont c"
  have sp: "py_isspace_cp [c] = py_isspace c" for c by (simp add: py_isspace_cp_def)
  have dw: "dropWhile py_isspace_cp (map (\<lambda>c. [c]) xs) = map (\<lambda>c. [c]) (dropWhile py_isspace xs)" for xs
    by (induction xs) (simp_all add: sp)
  show ?thesis
    by (simp add: py_strip_def utf8_split_ascii [OF a] rev_map dw)
qed

text \<open>\<open>str(n)\<close> for an integer: decimal digits, a minus sign for a negative number.\<close>

fun nat_digits :: "nat \<Rightarrow> string" where
  "nat_digits n =
     (if n < 10 then [char_of (48 + n)] else nat_digits (n div 10) @ [char_of (48 + n mod 10)])"

declare nat_digits.simps [simp del]

definition py_str_int :: "int \<Rightarrow> string" where
  "py_str_int i = (if i < 0 then CHR ''-'' # nat_digits (nat (- i)) else nat_digits (nat i))"

lemma nat_digits_nonempty: "nat_digits n \<noteq> []"
  by (subst nat_digits.simps) simp

text \<open>\<open>sep.join(xs)\<close>.\<close>

fun join_with :: "string \<Rightarrow> string list \<Rightarrow> string" where
  "join_with sep [] = []"
| "join_with sep [x] = x"
| "join_with sep (x # y # zs) = x @ sep @ join_with sep (y # zs)"

subsection \<open>Maxima and stable sorting\<close>

text \<open>The reference for a maximum search that keeps the first of several maximal items:
  a left fold that replaces the running maximum only by a strictly greater item. It
  picks the first item whose key is the largest; so does the last item of a stable
  ascending sort of the reversed list.\<close>

definition first_max :: "('a \<Rightarrow> 'k::linorder) \<Rightarrow> 'a \<Rightarrow> 'a list \<Rightarrow> 'a" where
  "first_max f m xs = fold (\<lambda>x m. if f m < f x then x else m) xs m"

lemma first_max_Cons:
  "first_max f m (x # xs) = first_max f (if f m < f x then x else m) xs"
  by (simp add: first_max_def)

lemma Max_insert_below:
  "finite A \<Longrightarrow> A \<noteq> {} \<Longrightarrow> a \<le> Max A \<Longrightarrow> Max (insert a A) = Max A"
  by (simp add: max_def)

lemma first_max_in: "first_max f m xs \<in> set (m # xs)"
  by (induction xs arbitrary: m) (auto simp: first_max_Cons first_max_def)

lemma first_max_filter:
  "first_max f m xs = hd (filter (\<lambda>y. f y = Max (f ` set (m # xs))) (m # xs))"
proof (induction xs arbitrary: m)
  case Nil
  then show ?case by (simp add: first_max_def)
next
  case (Cons x xs)
  let ?M = "Max (f ` set (m # x # xs))"
  have img1: "f ` set (m # x # xs) = insert (f m) (f ` set (x # xs))" by simp
  have img2: "f ` set (m # x # xs) = insert (f x) (f ` set (m # xs))" by auto
  have geM: "f y \<le> ?M" if "y \<in> set (m # x # xs)" for y
    using that by (metis Max_ge finite_imageI finite_set imageI)
  let ?P = "\<lambda>y. f y = ?M"
  show ?case
  proof (cases "f m < f x")
    case True
    have "f x \<le> Max (f ` set (x # xs))" by (metis Max_ge finite_imageI finite_set imageI list.set_intros(1))
    with True have "f m \<le> Max (f ` set (x # xs))" by (meson less_imp_le order_trans)
    then have M: "Max (f ` set (x # xs)) = ?M"
      by (simp only: img1 Max_insert_below finite_imageI finite_set) simp
    have nm: "\<not> ?P m" using True geM [of x] by auto
    have "first_max f m (x # xs) = first_max f x xs" using True by (simp only: first_max_Cons if_True)
    also have "\<dots> = hd (filter (\<lambda>y. f y = Max (f ` set (x # xs))) (x # xs))" by (rule Cons.IH)
    also have "\<dots> = hd (filter ?P (m # x # xs))" using nm by (simp only: M filter.simps(2) if_False)
    finally show ?thesis .
  next
    case False
    have "f m \<le> Max (f ` set (m # xs))" by (metis Max_ge finite_imageI finite_set imageI list.set_intros(1))
    with False have "f x \<le> Max (f ` set (m # xs))" by (meson not_less order_trans)
    then have M: "Max (f ` set (m # xs)) = ?M"
      by (simp only: img2 Max_insert_below finite_imageI finite_set) simp
    have "first_max f m (x # xs) = first_max f m xs" using False by (simp only: first_max_Cons if_False)
    also have "\<dots> = hd (filter (\<lambda>y. f y = Max (f ` set (m # xs))) (m # xs))" by (rule Cons.IH)
    also have "\<dots> = hd (filter ?P (m # xs))" by (simp only: M)
    also have "\<dots> = hd (filter ?P (m # x # xs))"
    proof (cases "?P m")
      case True
      then show ?thesis by simp
    next
      case fm: False
      have le: "f m \<le> ?M" by (rule geM) simp
      have "f m < ?M" using fm le by (rule order.not_eq_order_implies_strict)
      with False have "f x < ?M" by (meson not_less order_le_less_trans)
      then have "\<not> ?P x" by (rule less_imp_neq)
      with fm show ?thesis by simp
    qed
    finally show ?thesis .
  qed
qed

lemma sorted_last_Max:
  "sorted (map f ys) \<Longrightarrow> ys \<noteq> [] \<Longrightarrow> f (last ys) = Max (f ` set ys)"
proof (induction ys rule: rev_induct)
  case Nil then show ?case by simp
next
  case (snoc y ys)
  then show ?case
    by (cases "ys = []") (auto simp: sorted_append intro!: Max_eqI [symmetric])
qed

lemma last_filter_last:
  "ys \<noteq> [] \<Longrightarrow> P (last ys) \<Longrightarrow> last (filter P ys) = last ys"
  by (induction ys rule: rev_induct) auto

lemma last_sort_key:
  "xs \<noteq> [] \<Longrightarrow> last (sort_key f xs) = last (filter (\<lambda>y. f y = Max (f ` set xs)) xs)"
proof -
  assume ne: "xs \<noteq> []"
  let ?S = "sort_key f xs"
  have S: "?S \<noteq> []" using ne by (metis length_0_conv length_sort)
  have sorted: "sorted (map f ?S)" by simp
  have "f (last ?S) = Max (f ` set xs)"
    using sorted_last_Max [OF sorted S] by simp
  then have "last ?S = last (filter (\<lambda>y. f y = Max (f ` set xs)) ?S)"
    using last_filter_last [OF S, of "\<lambda>y. f y = Max (f ` set xs)"] by simp
  also have "\<dots> = last (filter (\<lambda>y. f y = Max (f ` set xs)) xs)"
    by (simp add: sort_key_stable)
  finally show ?thesis .
qed

lemma hd_rev_sort_key_rev:
  "xs \<noteq> [] \<Longrightarrow> hd (rev (sort_key f (rev xs))) = hd (filter (\<lambda>y. f y = Max (f ` set xs)) xs)"
proof -
  assume ne: "xs \<noteq> []"
  let ?P = "\<lambda>y. f y = Max (f ` set xs)"
  have ex: "filter ?P xs \<noteq> []"
  proof -
    have "Max (f ` set xs) \<in> f ` set xs" using ne by simp
    then show ?thesis by (auto simp: filter_empty_conv)
  qed
  have "hd (rev (sort_key f (rev xs))) = last (sort_key f (rev xs))"
    using ne by (simp add: hd_rev)
  also have "\<dots> = last (filter ?P (rev xs))"
    using last_sort_key [of "rev xs" f] ne by simp
  also have "\<dots> = hd (filter ?P xs)"
    using ex by (simp add: rev_filter [symmetric] last_rev)
  finally show ?thesis .
qed

lemma sort_key_map_pair:
  "sort_key (f \<circ> snd) (map (\<lambda>x. (x, g x)) xs) = map (\<lambda>x. (x, g x)) (sort_key (f \<circ> g) xs)"
proof -
  have ins: "insort_key (\<lambda>a. f (snd a)) (x, g x) (map (\<lambda>x. (x, g x)) ys) =
      map (\<lambda>x. (x, g x)) (insort_key (\<lambda>a. f (g a)) x ys)" for x ys
    by (induction ys) auto
  show ?thesis by (induction xs) (simp_all add: ins)
qed


subsection \<open>Truncation of \<open>int()\<close>\<close>

text \<open>\<open>int(x)\<close> of a float rounds toward zero.\<close>

definition py_int_of_real :: "real \<Rightarrow> int" where
  "py_int_of_real x = (if 0 \<le> x then \<lfloor>x\<rfloor> else - \<lfloor>- x\<rfloor>)"

lemma py_int_of_real_small: "0 \<le> x \<Longrightarrow> x < 1 \<Longrightarrow> py_int_of_real x = 0"
  by (simp add: py_int_of_real_def floor_eq_iff)

lemma py_int_of_real_le: "0 \<le> x \<Longrightarrow> real_of_int (py_int_of_real x) \<le> x"
  by (simp add: py_int_of_real_def)

end
