(* ===== verification/RateLimit.thy ===== *)
theory RateLimit
  imports Prelude
begin

text \<open>
  The rate limiter, \<open>check_rate_limit\<close> of \<open>src/attached_assets/app_1750480725733.py\<close>
  (lines 17--19 and 318--327): a process-wide dictionary \<open>rate_limit_storage\<close> from client
  address to the time (\<open>time.time()\<close>, seconds as a float, here a real number) of its
  last accepted request. A request is refused when the client has an entry less than
  \<open>RATE_LIMIT_WINDOW\<close> seconds old; otherwise the current time is stored and the request
  accepted. The store is passed explicitly; a sequence of requests is a run over a list of
  (client, time) events. Nothing ever removes an entry. The spec's contract is also
  stated over the history of accepted requests (\<open>rl_spec_run\<close>), and the store is shown
  to refine it while the clock does not go backwards. Splitting \<open>check_rate_limit\<close> into
  its read and its write shows what two threads of the Flask server can do between them.
\<close>

type_synonym 'c rl_store = "'c \<rightharpoonup> real"

definition RATE_LIMIT_WINDOW :: real where
  "RATE_LIMIT_WINDOW = 30"

definition check_rate_limit :: "'c rl_store \<Rightarrow> real \<Rightarrow> 'c \<Rightarrow> bool \<times> 'c rl_store" where
  "check_rate_limit rate_limit_storage current_time client_ip =
     (case rate_limit_storage client_ip of
        Some last_request \<Rightarrow>
          if current_time - last_request < RATE_LIMIT_WINDOW then (False, rate_limit_storage)
          else (True, rate_limit_storage(client_ip \<mapsto> current_time))
      | None \<Rightarrow> (True, rate_limit_storage(client_ip \<mapsto> current_time)))"

text \<open>A sequence of calls, each with the client and the time \<open>time.time()\<close> returned.\<close>

fun rl_run :: "'c rl_store \<Rightarrow> ('c \<times> real) list \<Rightarrow> bool list \<times> 'c rl_store" where
  "rl_run st [] = ([], st)"
| "rl_run st ((c, t) # evs) =
     (let r = check_rate_limit st t c; rest = rl_run (snd r) evs in (fst r # fst rest, snd rest))"

text \<open>The times at which client \<open>c\<close> was accepted in a run.\<close>

definition accepted_times :: "'c \<Rightarrow> ('c \<times> real) list \<Rightarrow> bool list \<Rightarrow> real list" where
  "accepted_times c evs oks = map (snd \<circ> fst) (filter (\<lambda>(e, ok). fst e = c \<and> ok) (zip evs oks))"

text \<open>The decisions taken for client \<open>c\<close> in a run.\<close>

definition decisions_of :: "'c \<Rightarrow> ('c \<times> real) list \<Rightarrow> bool list \<Rightarrow> bool list" where
  "decisions_of c evs oks = map snd (filter (\<lambda>(e, ok). fst e = c) (zip evs oks))"

text \<open>The two halves of \<open>check_rate_limit\<close>: the read of the entry and the decision
  (lines 320--323, 325), and the write of the current time (lines 324 and 326). Flask's
  server runs requests in threads, and nothing makes the two halves atomic.\<close>

definition rl_decide :: "'c rl_store \<Rightarrow> real \<Rightarrow> 'c \<Rightarrow> bool" where
  "rl_decide st t c = (case st c of Some l \<Rightarrow> \<not> t - l < RATE_LIMIT_WINDOW | None \<Rightarrow> True)"

definition rl_commit :: "'c rl_store \<Rightarrow> real \<Rightarrow> 'c \<Rightarrow> bool \<Rightarrow> 'c rl_store" where
  "rl_commit st t c ok = (if ok then st(c \<mapsto> t) else st)"

text \<open>Two requests of one client in two threads, both reading the store before either
  writes: the decisions and the final store.\<close>

definition rl_race :: "'c rl_store \<Rightarrow> real \<Rightarrow> real \<Rightarrow> 'c \<Rightarrow> bool \<times> bool \<times> 'c rl_store" where
  "rl_race st t1 t2 c =
     (let ok1 = rl_decide st t1 c; ok2 = rl_decide st t2 c
      in (ok1, ok2, rl_commit (rl_commit st t1 c ok1) t2 c ok2))"

text \<open>The contract of the spec (section 4.2) as a history: the requests accepted so far,
  in order. A request is allowed when no accepted request of the same client lies less
  than a window before it; an allowed request is appended.\<close>

definition rl_allows :: "('c \<times> real) list \<Rightarrow> real \<Rightarrow> 'c \<Rightarrow> bool" where
  "rl_allows hist t c = list_all (\<lambda>(c', a). c' \<noteq> c \<or> RATE_LIMIT_WINDOW \<le> t - a) hist"

fun rl_spec_run :: "('c \<times> real) list \<Rightarrow> ('c \<times> real) list \<Rightarrow> bool list \<times> ('c \<times> real) list" where
  "rl_spec_run hist [] = ([], hist)"
| "rl_spec_run hist ((c, t) # evs) =
     (let ok = rl_allows hist t c; rest = rl_spec_run (if ok then hist @ [(c, t)] else hist) evs
      in (ok # fst rest, snd rest))"

text \<open>The store a history abstracts to: each client's most recent accepted time.\<close>

definition rl_abs :: "('c \<times> real) list \<Rightarrow> 'c rl_store" where
  "rl_abs hist = map_of (rev hist)"

text \<open>Every accepted time of a client is at most the one the abstraction keeps.\<close>

definition hist_latest :: "('c \<times> real) list \<Rightarrow> bool" where
  "hist_latest hist = (\<forall>(c, a)\<in>set hist. \<forall>l. rl_abs hist c = Some l \<longrightarrow> a \<le> l)"

lemma check_rate_limit_cases:
  "check_rate_limit st t c =
     (if (\<exists>l. st c = Some l \<and> t - l < RATE_LIMIT_WINDOW) then (False, st) else (True, st(c \<mapsto> t)))"
  by (auto simp: check_rate_limit_def split: option.splits)

lemma check_rate_limit_other:
  "c' \<noteq> c \<Longrightarrow> snd (check_rate_limit st t c) c' = st c'"
  by (simp add: check_rate_limit_cases)

lemma rl_run_length [simp]: "length (fst (rl_run st evs)) = length evs"
  by (induction st evs rule: rl_run.induct) (simp_all add: Let_def)

lemma rl_run_Cons:
  "rl_run st ((c, t) # evs) =
     (fst (check_rate_limit st t c) # fst (rl_run (snd (check_rate_limit st t c)) evs),
      snd (rl_run (snd (check_rate_limit st t c)) evs))"
  by (simp add: Let_def)

declare rl_run.simps(2) [simp del]

lemma accepted_times_Cons:
  "accepted_times c ((c', t) # evs) (ok # oks) =
     (if c' = c \<and> ok then t # accepted_times c evs oks else accepted_times c evs oks)"
  by (simp add: accepted_times_def)

lemma check_rate_limit_same_entry:
  "st1 c = st2 c \<Longrightarrow>
     fst (check_rate_limit st1 t c) = fst (check_rate_limit st2 t c) \<and>
     snd (check_rate_limit st1 t c) c = snd (check_rate_limit st2 t c) c"
  by (simp add: check_rate_limit_cases)

lemma dom_check_rate_limit: "dom (snd (check_rate_limit st t c)) = insert c (dom st)"
  by (auto simp: check_rate_limit_cases)

lemmas rl_simps = rl_run_Cons accepted_times_Cons check_rate_limit_cases

text \<open>C6: a refused request leaves the whole store unchanged: the window is measured
  from the last accepted request, not from the last attempt.\<close>

theorem check_rate_limit_refused_keeps_store:
  "fst (check_rate_limit st t c) = False \<Longrightarrow> snd (check_rate_limit st t c) = st"
  by (simp add: check_rate_limit_cases split: if_splits)

theorem check_rate_limit_refused_keeps_store_witness:
  "fst (check_rate_limit [''10.0.0.1'' \<mapsto> 100] 110 ''10.0.0.1'') = False \<and>
   snd (check_rate_limit [''10.0.0.1'' \<mapsto> 100] 110 ''10.0.0.1'') = [''10.0.0.1'' \<mapsto> 100]"
proof -
  have h: "fst (check_rate_limit [''10.0.0.1'' \<mapsto> (100::real)] 110 ''10.0.0.1'') = False"
    by (simp add: check_rate_limit_def RATE_LIMIT_WINDOW_def)
  show ?thesis using h check_rate_limit_refused_keeps_store [OF h] by simp
qed

text \<open>C7: a request is accepted, and its time recorded, whenever the client has no entry
  or its entry is at least \<open>RATE_LIMIT_WINDOW\<close> seconds old.\<close>

theorem check_rate_limit_window_expired:
  "(\<forall>l. st c = Some l \<longrightarrow> l + RATE_LIMIT_WINDOW \<le> t) \<Longrightarrow>
     check_rate_limit st t c = (True, st(c \<mapsto> t))"
  by (auto simp: check_rate_limit_def split: option.splits)

theorem check_rate_limit_window_expired_witness:
  "check_rate_limit [''a'' \<mapsto> (100::real)] 130 ''a'' = (True, [''a'' \<mapsto> 100, ''a'' \<mapsto> 130])"
proof -
  have h: "\<forall>l. [''a'' \<mapsto> (100::real)] ''a'' = Some l \<longrightarrow> l + RATE_LIMIT_WINDOW \<le> 130"
    by (simp add: RATE_LIMIT_WINDOW_def)
  show ?thesis
    using h check_rate_limit_window_expired [where st = "[''a'' \<mapsto> 100]" and c = "''a''" and t = 130]
    by simp
qed

lemma rl_run_accepted_sep:
  "sorted_wrt (\<lambda>a b. a + RATE_LIMIT_WINDOW \<le> b)
     ((case st c of None \<Rightarrow> [] | Some l \<Rightarrow> [l]) @ accepted_times c evs (fst (rl_run st evs)))"
proof (induction evs arbitrary: st)
  case Nil
  then show ?case by (simp add: accepted_times_def split: option.split)
next
  case (Cons e evs)
  obtain c' t where e: "e = (c', t)" by fastforce
  let ?r = "check_rate_limit st t c'"
  let ?rest = "accepted_times c evs (fst (rl_run (snd ?r) evs))"
  have IH: "sorted_wrt (\<lambda>a b. a + RATE_LIMIT_WINDOW \<le> b)
      ((case snd ?r c of None \<Rightarrow> [] | Some l \<Rightarrow> [l]) @ ?rest)"
    by (rule Cons.IH)
  show ?case
  proof (cases "c' = c \<and> fst ?r")
    case True
    then have new: "snd ?r c = Some t" and
      old: "\<forall>l. st c = Some l \<longrightarrow> l + RATE_LIMIT_WINDOW \<le> t"
      by (auto simp: check_rate_limit_cases split: if_splits)
    from IH new have "sorted_wrt (\<lambda>a b. a + RATE_LIMIT_WINDOW \<le> b) (t # ?rest)" by simp
    with old True e show ?thesis
      by (cases "st c") (auto simp: rl_simps RATE_LIMIT_WINDOW_def)
  next
    case False
    then have same: "snd ?r c = st c"
      by (cases "c' = c") (auto simp: check_rate_limit_cases split: if_splits)
    from False e have "accepted_times c (e # evs) (fst (rl_run st (e # evs))) = ?rest"
      by (auto simp: rl_run_Cons accepted_times_Cons)
    with IH same show ?thesis by simp
  qed
qed

text \<open>C8: in every run, the times at which one client is accepted (preceded by its entry
  in the initial store, if any) are pairwise at least \<open>RATE_LIMIT_WINDOW\<close> apart, in
  the order they occur; this needs no assumption that the clock is monotone.\<close>

theorem rl_accepted_pairwise_window:
  "sorted_wrt (\<lambda>a b. a + RATE_LIMIT_WINDOW \<le> b) (accepted_times c evs (fst (rl_run st evs)))"
  using rl_run_accepted_sep [of st c evs] by (simp add: sorted_wrt_append)

text \<open>C9: the store only grows: after any run its keys are the initial keys and every
  client that sent a request, accepted or not. No entry is ever removed.\<close>

theorem rl_run_dom:
  "dom (snd (rl_run st evs)) = dom st \<union> fst ` set evs"
proof (induction evs arbitrary: st)
  case Nil
  then show ?case by simp
next
  case (Cons e evs)
  obtain c t where "e = (c, t)" by fastforce
  with Cons.IH [of "snd (check_rate_limit st t c)"] show ?case
    by (auto simp: rl_run_Cons dom_check_rate_limit)
qed

lemma decisions_of_Cons:
  "decisions_of c ((c', t) # evs) (ok # oks) =
     (if c' = c then ok # decisions_of c evs oks else decisions_of c evs oks)"
  by (simp add: decisions_of_def)

lemma rl_run_isolation_gen:
  "st1 c = st2 c \<Longrightarrow>
     decisions_of c evs (fst (rl_run st1 evs)) = fst (rl_run st2 (filter (\<lambda>e. fst e = c) evs)) \<and>
     snd (rl_run st1 evs) c = snd (rl_run st2 (filter (\<lambda>e. fst e = c) evs)) c"
proof (induction evs arbitrary: st1 st2)
  case Nil
  then show ?case by (simp add: decisions_of_def)
next
  case (Cons e evs)
  obtain c' t where e: "e = (c', t)" by fastforce
  show ?case
  proof (cases "c' = c")
    case True
    have both: "fst (check_rate_limit st1 t c) = fst (check_rate_limit st2 t c) \<and>
        snd (check_rate_limit st1 t c) c = snd (check_rate_limit st2 t c) c"
      by (rule check_rate_limit_same_entry [of st1 c st2 t, OF Cons.prems])
    note ok = conjunct1 [OF both] and st = conjunct2 [OF both]
    from st have IH:
      "decisions_of c evs (fst (rl_run (snd (check_rate_limit st1 t c)) evs)) =
         fst (rl_run (snd (check_rate_limit st2 t c)) (filter (\<lambda>e. fst e = c) evs)) \<and>
       snd (rl_run (snd (check_rate_limit st1 t c)) evs) c =
         snd (rl_run (snd (check_rate_limit st2 t c)) (filter (\<lambda>e. fst e = c) evs)) c"
      by (rule Cons.IH)
    from IH ok True e show ?thesis
      by (simp add: rl_run_Cons decisions_of_Cons)
  next
    case False
    with Cons.prems have st: "snd (check_rate_limit st1 t c') c = st2 c"
      by (simp add: check_rate_limit_other)
    then have IH:
      "decisions_of c evs (fst (rl_run (snd (check_rate_limit st1 t c')) evs)) =
         fst (rl_run st2 (filter (\<lambda>e. fst e = c) evs)) \<and>
       snd (rl_run (snd (check_rate_limit st1 t c')) evs) c =
         snd (rl_run st2 (filter (\<lambda>e. fst e = c) evs)) c"
      by (rule Cons.IH)
    from IH False e show ?thesis
      by (simp add: rl_run_Cons decisions_of_Cons)
  qed
qed

text \<open>C10: clients do not interfere: the decisions taken for client \<open>c\<close> in a run,
  and its final entry, are those of the run of \<open>c\<close>'s requests alone.\<close>

theorem rl_run_isolation:
  "decisions_of c evs (fst (rl_run st evs)) = fst (rl_run st (filter (\<lambda>e. fst e = c) evs))"
  using rl_run_isolation_gen [of st c st evs] by simp


subsection \<open>Refinement of the history contract, and interleaving\<close>

lemma check_rate_limit_split:
  "check_rate_limit st t c = (rl_decide st t c, rl_commit st t c (rl_decide st t c))"
  by (simp add: check_rate_limit_def rl_decide_def rl_commit_def split: option.split)

lemma rl_abs_snoc: "rl_abs (hist @ [(c, t)]) = (rl_abs hist)(c \<mapsto> t)"
  by (simp add: rl_abs_def)

lemma rl_abs_member: "(c, a) \<in> set hist \<Longrightarrow> \<exists>l. rl_abs hist c = Some l \<and> (c, l) \<in> set hist"
  by (induction hist rule: rev_induct) (auto simp: rl_abs_def)

lemma rl_abs_in: "rl_abs hist c = Some l \<Longrightarrow> (c, l) \<in> set hist"
  by (auto simp: rl_abs_def dest: map_of_SomeD)

lemma rl_decide_abs:
  "hist_latest hist \<Longrightarrow> rl_decide (rl_abs hist) t c = rl_allows hist t c"
proof (cases "rl_abs hist c")
  case None
  then have "\<forall>(c', a)\<in>set hist. c' \<noteq> c" using rl_abs_member by fastforce
  with None show ?thesis by (auto simp: rl_decide_def rl_allows_def list_all_iff)
next
  case (Some l)
  assume inv: "hist_latest hist"
  have mem: "(c, l) \<in> set hist" using Some by (rule rl_abs_in)
  have le: "\<forall>(c', a)\<in>set hist. c' = c \<longrightarrow> a \<le> l" using inv Some by (auto simp: hist_latest_def)
  show ?thesis
  proof
    assume "rl_decide (rl_abs hist) t c"
    then have "RATE_LIMIT_WINDOW \<le> t - l" using Some by (simp add: rl_decide_def)
    then show "rl_allows hist t c" using le by (fastforce simp: rl_allows_def list_all_iff)
  next
    assume "rl_allows hist t c"
    then have "RATE_LIMIT_WINDOW \<le> t - l" using mem by (fastforce simp: rl_allows_def list_all_iff)
    then show "rl_decide (rl_abs hist) t c" using Some by (simp add: rl_decide_def)
  qed
qed

lemma hist_latest_snoc:
  assumes inv: "hist_latest hist" and below: "\<forall>(c', a)\<in>set hist. a \<le> t"
  shows "hist_latest (hist @ [(c, t)])"
  unfolding hist_latest_def rl_abs_snoc
proof clarify
  fix c' a l
  assume mem: "(c', a) \<in> set (hist @ [(c, t)])" and l: "((rl_abs hist)(c \<mapsto> t)) c' = Some l"
  show "a \<le> l"
  proof (cases "c' = c")
    case True
    then show ?thesis using mem l below by auto
  next
    case False
    then show ?thesis using mem l inv by (auto simp: hist_latest_def)
  qed
qed

lemma rl_refines_gen:
  "hist_latest hist \<Longrightarrow> \<forall>(c', a)\<in>set hist. \<forall>e\<in>set evs. a \<le> snd e \<Longrightarrow> sorted (map snd evs) \<Longrightarrow>
     rl_run (rl_abs hist) evs = (fst (rl_spec_run hist evs), rl_abs (snd (rl_spec_run hist evs)))"
proof (induction evs arbitrary: hist)
  case Nil
  then show ?case by simp
next
  case (Cons e evs)
  obtain c t where e: "e = (c, t)" by fastforce
  let ?ok = "rl_allows hist t c"
  let ?h = "if ?ok then hist @ [(c, t)] else hist"
  have dec: "rl_decide (rl_abs hist) t c = ?ok" by (rule rl_decide_abs [OF Cons.prems(1)])
  have step: "snd (check_rate_limit (rl_abs hist) t c) = rl_abs ?h"
    by (simp add: check_rate_limit_split dec rl_commit_def rl_abs_snoc)
  have below: "\<forall>(c', a)\<in>set hist. a \<le> t" using Cons.prems(2) e by auto
  have inv: "hist_latest ?h" using hist_latest_snoc [OF Cons.prems(1) below] Cons.prems(1) by simp
  have st: "\<forall>e'\<in>set evs. t \<le> snd e'" using Cons.prems(3) e by simp
  have all: "\<forall>(c', a)\<in>set ?h. \<forall>e\<in>set evs. a \<le> snd e"
    using Cons.prems(2) st by auto
  have IH: "rl_run (rl_abs ?h) evs = (fst (rl_spec_run ?h evs), rl_abs (snd (rl_spec_run ?h evs)))"
    using Cons.prems(3) by (intro Cons.IH [OF inv all]) simp
  have ok: "fst (check_rate_limit (rl_abs hist) t c) = ?ok" by (simp add: check_rate_limit_split dec)
  show ?case using IH e by (simp only: rl_run_Cons step ok rl_spec_run.simps Let_def fst_conv snd_conv)
qed

text \<open>C34: refinement. While the clock does not go backwards, the store of one timestamp
  per client implements the spec's contract stated over the whole history of accepted
  requests: from an empty store, the decisions of a run are those of the history-based
  limiter, and the final store is the abstraction of its final history.\<close>

theorem rl_run_refines_spec:
  "sorted (map snd evs) \<Longrightarrow>
     rl_run Map.empty evs = (fst (rl_spec_run [] evs), rl_abs (snd (rl_spec_run [] evs)))"
  using rl_refines_gen [of "[]" evs] by (simp add: hist_latest_def rl_abs_def)

theorem rl_run_refines_spec_witness:
  "rl_run Map.empty [(''a'', 0), (''b'', 10), (''a'', 20), (''a'', 31)] =
     ([True, True, False, True], rl_abs [(''a'', 0), (''b'', 10), (''a'', 31)])"
  using rl_run_refines_spec [of "[(''a'', 0), (''b'', 10), (''a'', 20), (''a'', 31)]"]
  by (simp add: rl_allows_def RATE_LIMIT_WINDOW_def)

text \<open>C35: the read and the write of \<open>check_rate_limit\<close> are not atomic. Two requests
  of a new client less than a window apart, handled by two threads that both read the
  store before either writes, are both accepted, where the same requests one after the
  other accept only the first.\<close>

theorem rl_race_both_accepted:
  "st c = None \<Longrightarrow> t1 \<le> t2 \<Longrightarrow> t2 - t1 < RATE_LIMIT_WINDOW \<Longrightarrow>
     rl_race st t1 t2 c = (True, True, st(c \<mapsto> t2)) \<and>
     fst (rl_run st [(c, t1), (c, t2)]) = [True, False]"
  by (simp add: rl_race_def rl_decide_def rl_commit_def rl_run_Cons check_rate_limit_def)

theorem rl_race_both_accepted_witness:
  "rl_race Map.empty 100 100 ''1.2.3.4'' = (True, True, [''1.2.3.4'' \<mapsto> 100]) \<and>
   fst (rl_run Map.empty [(''1.2.3.4'', 100), (''1.2.3.4'', 100)]) = [True, False]"
  by (rule rl_race_both_accepted) (simp_all add: RATE_LIMIT_WINDOW_def)


lemma rl_run_snoc:
  "rl_run st (evs @ [(c, t)]) =
     (fst (rl_run st evs) @ [fst (check_rate_limit (snd (rl_run st evs)) t c)],
      snd (check_rate_limit (snd (rl_run st evs)) t c))"
proof (induction evs arbitrary: st)
  case Nil
  then show ?case by (simp add: rl_run_Cons)
next
  case (Cons e evs)
  obtain c' t' where "e = (c', t')" by fastforce
  with Cons.IH [of "snd (check_rate_limit st t' c')"] show ?case by (simp add: rl_run_Cons)
qed

lemma rl_run_entry:
  "snd (rl_run st evs) c = st c \<or> (\<exists>t. (c, t) \<in> set evs \<and> snd (rl_run st evs) c = Some t)"
proof (induction evs arbitrary: st)
  case Nil
  then show ?case by simp
next
  case (Cons e evs)
  obtain c' t' where e: "e = (c', t')" by fastforce
  let ?st = "snd (check_rate_limit st t' c')"
  have "?st c = st c \<or> (c' = c \<and> ?st c = Some t')"
    by (auto simp: check_rate_limit_cases)
  then show ?case using Cons.IH [of ?st] e by (auto simp: rl_run_Cons)
qed

text \<open>C37: liveness: no client is starved. Whatever other clients do, a request sent at
  least a window after every earlier request of the same client (and after its entry in
  the initial store) is accepted.\<close>

theorem rl_run_waiting_client_accepted:
  "(\<forall>l. st c = Some l \<longrightarrow> l + RATE_LIMIT_WINDOW \<le> t) \<Longrightarrow>
   (\<forall>(c', t')\<in>set evs. c' = c \<longrightarrow> t' + RATE_LIMIT_WINDOW \<le> t) \<Longrightarrow>
     last (fst (rl_run st (evs @ [(c, t)]))) = True"
proof -
  assume st: "\<forall>l. st c = Some l \<longrightarrow> l + RATE_LIMIT_WINDOW \<le> t"
    and evs: "\<forall>(c', t')\<in>set evs. c' = c \<longrightarrow> t' + RATE_LIMIT_WINDOW \<le> t"
  have "\<forall>l. snd (rl_run st evs) c = Some l \<longrightarrow> l + RATE_LIMIT_WINDOW \<le> t"
    using rl_run_entry [of st evs c] st evs by auto
  then show ?thesis by (auto simp: rl_run_snoc check_rate_limit_cases)
qed

theorem rl_run_waiting_client_accepted_witness:
  "last (fst (rl_run [''a'' \<mapsto> 0] [(''a'', 10), (''b'', 35), (''a'', 40)])) = True"
  using rl_run_waiting_client_accepted
    [where st = "[''a'' \<mapsto> 0]" and c = "''a''" and t = 40 and evs = "[(''a'', 10), (''b'', 35)]"]
  by (simp add: RATE_LIMIT_WINDOW_def)

end
