(* ===== verification/Platform.thy ===== *)
theory Platform
  imports Prelude
begin

text \<open>
  The platform detector, \<open>detect_platform\<close> of \<open>src/attached_assets/app_1750480725733.py\<close>
  (lines 307--316): the URL is lower-cased and searched for fixed domain fragments, in the
  order Instagram, YouTube, TikTok. The lemmas characterise each answer by the fragments
  the lower-cased URL contains and show that the answer does not depend on letter case.
  The tests are bare substring tests on the whole URL, not tests of its host.
\<close>

datatype platform = Instagram | Youtube | Tiktok

text \<open>The string the source uses for each platform (the value \<open>detect_platform\<close>
  returns and the handler puts into its response).\<close>

fun platform_name :: "platform \<Rightarrow> string" where
  "platform_name Instagram = ''instagram''"
| "platform_name Youtube = ''youtube''"
| "platform_name Tiktok = ''tiktok''"

definition detect_platform :: "string \<Rightarrow> platform option" where
  "detect_platform url =
     (let url_lower = py_lower url in
      if py_contains ''instagram.com'' url_lower \<or> py_contains ''instagr.am'' url_lower
      then Some Instagram
      else if py_contains ''youtube.com'' url_lower \<or> py_contains ''youtu.be'' url_lower
      then Some Youtube
      else if py_contains ''tiktok.com'' url_lower
      then Some Tiktok
      else None)"

text \<open>The fragments of each platform, as the library's sublist relation.\<close>

definition insta_hit :: "string \<Rightarrow> bool" where
  "insta_hit u \<longleftrightarrow> sublist ''instagram.com'' u \<or> sublist ''instagr.am'' u"

definition yt_hit :: "string \<Rightarrow> bool" where
  "yt_hit u \<longleftrightarrow> sublist ''youtube.com'' u \<or> sublist ''youtu.be'' u"

definition tt_hit :: "string \<Rightarrow> bool" where
  "tt_hit u \<longleftrightarrow> sublist ''tiktok.com'' u"

lemma detect_platform_unfold:
  "detect_platform url =
     (if insta_hit (py_lower url) then Some Instagram
      else if yt_hit (py_lower url) then Some Youtube
      else if tt_hit (py_lower url) then Some Tiktok
      else None)"
  by (simp add: detect_platform_def insta_hit_def yt_hit_def tt_hit_def py_contains_sublist Let_def)

text \<open>C1: the detector answers Instagram exactly when the lower-cased URL contains
  \<open>instagram.com\<close> or \<open>instagr.am\<close>, whatever else it contains.\<close>

theorem detect_instagram_iff:
  "detect_platform url = Some Instagram \<longleftrightarrow> insta_hit (py_lower url)"
  by (simp add: detect_platform_unfold)

text \<open>C2: the detector answers YouTube exactly when the lower-cased URL contains
  \<open>youtube.com\<close> or \<open>youtu.be\<close> and no Instagram fragment: Instagram takes
  precedence.\<close>

theorem detect_youtube_iff:
  "detect_platform url = Some Youtube \<longleftrightarrow> \<not> insta_hit (py_lower url) \<and> yt_hit (py_lower url)"
  by (simp add: detect_platform_unfold)

text \<open>C3: the detector answers TikTok exactly when the lower-cased URL contains
  \<open>tiktok.com\<close> and none of the Instagram or YouTube fragments.\<close>

theorem detect_tiktok_iff:
  "detect_platform url = Some Tiktok \<longleftrightarrow>
     \<not> insta_hit (py_lower url) \<and> \<not> yt_hit (py_lower url) \<and> tt_hit (py_lower url)"
  by (simp add: detect_platform_unfold)

text \<open>C4: the detector answers nothing exactly when the lower-cased URL contains none of
  the five fragments.\<close>

theorem detect_none_iff:
  "detect_platform url = None \<longleftrightarrow>
     \<not> insta_hit (py_lower url) \<and> \<not> yt_hit (py_lower url) \<and> \<not> tt_hit (py_lower url)"
  by (simp add: detect_platform_unfold)

text \<open>C5: detection is case-insensitive: two URLs that agree after lower-casing are
  classified alike.\<close>

theorem detect_case_insensitive:
  "py_lower u = py_lower v \<Longrightarrow> detect_platform u = detect_platform v"
  by (simp add: detect_platform_unfold)

theorem detect_case_insensitive_witness:
  "py_lower (''https://TI'' @ [CHR 0xE2, CHR 0x84, CHR 0xAA] @ ''tok.com/@a'') = py_lower ''https://tiktok.com/@a'' \<and>
   detect_platform (''https://TI'' @ [CHR 0xE2, CHR 0x84, CHR 0xAA] @ ''tok.com/@a'') =
     detect_platform ''https://tiktok.com/@a''"
proof -
  have h: "py_lower (''https://TI'' @ [CHR 0xE2, CHR 0x84, CHR 0xAA] @ ''tok.com/@a'') = py_lower ''https://tiktok.com/@a''"
    by code_simp
  show ?thesis using h detect_case_insensitive [OF h] by simp
qed

end
