(* ===== verification/PyValue.thy ===== *)
theory PyValue
  imports Prelude
begin

text \<open>
  The Python values the program handles: the dictionaries returned by \<open>yt_dlp\<close>'s
  \<open>extract_info\<close> and by \<open>response.json()\<close>, their fields, and the lists built
  from them. A value is a \<open>pyval\<close>; a dictionary is an association list (the first
  binding of a key is the one read). The operations the source applies to them
  (\<open>d.get(k, default)\<close>, \<open>d[k]\<close>, iteration, \<open>x[0]\<close>, \<open>x[:n]\<close>, truthiness,
  \<open>str(x)\<close>, \<open>max(xs, key=...)\<close>, \<open>xs.sort(key=..., reverse=True)\<close>) are defined
  with the exception each raises on the wrong type. Floats are not modelled: numbers are
  Python \<open>int\<close>s (and \<open>bool\<close>, which Python treats as an \<open>int\<close>).
\<close>

datatype pyval =
    PNone
  | PBool bool
  | PInt int
  | PStr string
  | PList "pyval list"
  | PDict "(string \<times> pyval) list"

type_synonym pydict = "(string \<times> pyval) list"

text \<open>The exceptions the modelled code can raise or receive; \<open>Raised msg\<close> is
  \<open>raise Exception(msg)\<close> of the source, \<open>ExtError\<close> an error reported by
  \<open>yt_dlp\<close> or \<open>requests\<close>.\<close>

datatype exc =
    TypeError
  | KeyError string
  | IndexError
  | AttributeError
  | ValueError
  | Raised string
  | ExtError string

subsection \<open>Dictionary and sequence operations\<close>

fun py_truthy :: "pyval \<Rightarrow> bool" where
  "py_truthy PNone = False"
| "py_truthy (PBool b) = b"
| "py_truthy (PInt i) = (i \<noteq> 0)"
| "py_truthy (PStr s) = (s \<noteq> [])"
| "py_truthy (PList xs) = (xs \<noteq> [])"
| "py_truthy (PDict d) = (d \<noteq> [])"

text \<open>\<open>d.get(k, dflt)\<close> and \<open>k in d\<close> on a dictionary.\<close>

definition dict_get :: "pydict \<Rightarrow> string \<Rightarrow> pyval \<Rightarrow> pyval" where
  "dict_get d k dflt = (case map_of d k of None \<Rightarrow> dflt | Some v \<Rightarrow> v)"

definition dict_has :: "pydict \<Rightarrow> string \<Rightarrow> bool" where
  "dict_has d k = (k \<in> set (map fst d))"

text \<open>\<open>x.get(k, dflt)\<close> on any value: only a dictionary has \<open>get\<close>.\<close>

fun py_get :: "pyval \<Rightarrow> string \<Rightarrow> pyval \<Rightarrow> exc + pyval" where
  "py_get (PDict d) k dflt = Inr (dict_get d k dflt)"
| "py_get _ k dflt = Inl AttributeError"

text \<open>\<open>x[k]\<close> with a string key.\<close>

fun py_getitem :: "pyval \<Rightarrow> string \<Rightarrow> exc + pyval" where
  "py_getitem (PDict d) k = (case map_of d k of None \<Rightarrow> Inl (KeyError k) | Some v \<Rightarrow> Inr v)"
| "py_getitem _ k = Inl TypeError"

text \<open>\<open>for x in v\<close>: a list yields its elements, a dictionary its keys, a string its
  characters (code points, as UTF-8 groups).\<close>

fun py_iter :: "pyval \<Rightarrow> exc + pyval list" where
  "py_iter (PList xs) = Inr xs"
| "py_iter (PDict d) = Inr (map (PStr \<circ> fst) d)"
| "py_iter (PStr s) = Inr (map PStr (utf8_split s))"
| "py_iter _ = Inl TypeError"

text \<open>\<open>x[0]\<close>: a dictionary looks the key \<open>0\<close> up, which a JSON object never has.\<close>

fun py_first :: "pyval \<Rightarrow> exc + pyval" where
  "py_first (PList []) = Inl IndexError"
| "py_first (PList (x # _)) = Inr x"
| "py_first (PStr s) = (case utf8_split s of [] \<Rightarrow> Inl IndexError | c # _ \<Rightarrow> Inr (PStr c))"
| "py_first (PDict d) = Inl (KeyError ''0'')"
| "py_first _ = Inl TypeError"

text \<open>\<open>x[:n]\<close>.\<close>

fun py_slice_to :: "nat \<Rightarrow> pyval \<Rightarrow> exc + pyval" where
  "py_slice_to n (PStr s) = Inr (PStr (utf8_take n s))"
| "py_slice_to n (PList xs) = Inr (PList (take n xs))"
| "py_slice_to n _ = Inl TypeError"

lemma dict_get_has: "dict_has d k \<Longrightarrow> \<exists>v. map_of d k = Some v \<and> dict_get d k dflt = v"
  by (auto simp: dict_has_def dict_get_def dest: weak_map_of_SomeI)

lemma dict_get_not_has [simp]: "\<not> dict_has d k \<Longrightarrow> dict_get d k dflt = dflt"
  by (simp add: dict_has_def dict_get_def map_of_eq_None_iff [symmetric])

lemma py_getitem_dict_has:
  "dict_has d k \<Longrightarrow> py_getitem (PDict d) k = Inr (dict_get d k dflt)"
  by (auto dest: dict_get_has[where dflt = dflt])

lemmas py_dict_simps = dict_get_def dict_has_def

subsection \<open>\<open>str()\<close> and \<open>repr()\<close>\<close>

definition hex_digit :: "nat \<Rightarrow> char" where
  "hex_digit n = (if n < 10 then char_of (48 + n) else char_of (87 + n))"

text \<open>One character of \<open>repr(s)\<close> inside the quote \<open>q\<close>. Bytes from 0x80 up are
  kept as they are, as Python keeps a printable non-ASCII code point.\<close>

definition repr_char :: "char \<Rightarrow> char \<Rightarrow> string" where
  "repr_char q c =
     (let n = (of_char c :: nat) in
      if c = CHR 0x5C then [CHR 0x5C, CHR 0x5C]
      else if c = q then [CHR 0x5C, q]
      else if n = 9 then [CHR 0x5C, CHR ''t'']
      else if n = 10 then [CHR 0x5C, CHR ''n'']
      else if n = 13 then [CHR 0x5C, CHR ''r'']
      else if n < 32 \<or> n = 127 then [CHR 0x5C, CHR ''x'', hex_digit (n div 16), hex_digit (n mod 16)]
      else [c])"

text \<open>\<open>repr(s)\<close>: single quotes, unless the string holds a single quote and no double
  quote.\<close>

definition py_repr_str :: "string \<Rightarrow> string" where
  "py_repr_str s =
     (let q = (if CHR 0x27 \<in> set s \<and> CHR 0x22 \<notin> set s then CHR 0x22 else CHR 0x27)
      in q # concat (map (repr_char q) s) @ [q])"

fun py_repr :: "pyval \<Rightarrow> string" where
  "py_repr PNone = ''None''"
| "py_repr (PBool b) = (if b then ''True'' else ''False'')"
| "py_repr (PInt i) = py_str_int i"
| "py_repr (PStr s) = py_repr_str s"
| "py_repr (PList xs) = ''['' @ join_with '', '' (map py_repr xs) @ '']''"
| "py_repr (PDict d) =
     ''{'' @ join_with '', '' (map (\<lambda>(k, v). py_repr_str k @ '': '' @ py_repr v) d) @ ''}''"

text \<open>\<open>str(x)\<close>, also what an f-string inserts for \<open>{x}\<close>.\<close>

fun py_str :: "pyval \<Rightarrow> string" where
  "py_str (PStr s) = s"
| "py_str v = py_repr v"

subsection \<open>Ordering: the keys of \<open>max\<close> and \<open>sort\<close>\<close>

text \<open>The values Python can order among themselves: numbers (\<open>int\<close>, \<open>bool\<close>)
  with numbers, strings with strings (by code point, which is the byte order of UTF-8).
  \<open>None\<close>, dictionaries, and a number against a string raise \<open>TypeError\<close>. Lists
  are compared element-wise by Python; as sort keys they do not occur in the program and
  are treated here as unordered.\<close>

datatype pykey = KNum int | KStr string

instantiation pykey :: linorder
begin

fun less_eq_pykey :: "pykey \<Rightarrow> pykey \<Rightarrow> bool" where
  "less_eq_pykey (KNum a) (KNum b) = (a \<le> b)"
| "less_eq_pykey (KNum a) (KStr b) = True"
| "less_eq_pykey (KStr a) (KNum b) = False"
| "less_eq_pykey (KStr a) (KStr b) = (a \<le> b)"

definition less_pykey :: "pykey \<Rightarrow> pykey \<Rightarrow> bool" where
  "less_pykey a b = (a \<le> b \<and> \<not> b \<le> a)"

instance
proof
  fix x y z :: pykey
  show "x < y \<longleftrightarrow> x \<le> y \<and> \<not> y \<le> x" by (simp add: less_pykey_def)
  show "x \<le> x" by (cases x) auto
  show "x \<le> y \<Longrightarrow> y \<le> z \<Longrightarrow> x \<le> z" by (cases x; cases y; cases z) auto
  show "x \<le> y \<Longrightarrow> y \<le> x \<Longrightarrow> x = y" by (cases x; cases y) auto
  show "x \<le> y \<or> y \<le> x" by (cases x; cases y) auto
qed

end

fun py_key :: "pyval \<Rightarrow> pykey option" where
  "py_key (PInt i) = Some (KNum i)"
| "py_key (PBool b) = Some (KNum (if b then 1 else 0))"
| "py_key (PStr s) = Some (KStr s)"
| "py_key _ = None"

fun same_kind :: "pykey \<Rightarrow> pykey \<Rightarrow> bool" where
  "same_kind (KNum _) (KNum _) = True"
| "same_kind (KStr _) (KStr _) = True"
| "same_kind _ _ = False"

lemma same_kind_refl [simp]: "same_kind x x"
  by (cases x) auto

lemma same_kind_commute: "same_kind x y = same_kind y x"
  by (cases x; cases y) auto

text \<open>\<open>a > b\<close>.\<close>

definition py_gt :: "pyval \<Rightarrow> pyval \<Rightarrow> exc + bool" where
  "py_gt a b =
     (case (py_key a, py_key b) of
        (Some x, Some y) \<Rightarrow> if same_kind x y then Inr (y < x) else Inl TypeError
      | _ \<Rightarrow> Inl TypeError)"

text \<open>\<open>max(xs, key=key)\<close> as CPython computes it: the first item is the running
  maximum; each further item's key is compared with \<open>>\<close> against the running maximum's
  key and replaces it only when strictly greater, so the first of several maximal items
  wins. An empty sequence raises \<open>ValueError\<close>.\<close>

fun py_max_from :: "(pyval \<Rightarrow> exc + pyval) \<Rightarrow> pyval \<Rightarrow> pyval \<Rightarrow> pyval list \<Rightarrow> exc + pyval" where
  "py_max_from key m km [] = Inr m"
| "py_max_from key m km (x # xs) =
     exc_bind (key x) (\<lambda>kx. exc_bind (py_gt kx km) (\<lambda>gt.
       if gt then py_max_from key x kx xs else py_max_from key m km xs))"

definition py_max_key :: "(pyval \<Rightarrow> exc + pyval) \<Rightarrow> pyval list \<Rightarrow> exc + pyval" where
  "py_max_key key xs =
     (case xs of [] \<Rightarrow> Inl ValueError | x # xs' \<Rightarrow> exc_bind (key x) (\<lambda>k. py_max_from key x k xs'))"

text \<open>\<open>xs.sort(key=key, reverse=True)\<close> as CPython computes it: all keys first, left
  to right; then the list is reversed, sorted stably in ascending order of the keys and
  reversed back, so items with equal keys keep their order. A comparison sort compares
  every two items adjacent in its output, so on two or more items it raises
  \<open>TypeError\<close> exactly when the keys are not all of one orderable kind.\<close>

definition keys_comparable :: "pyval list \<Rightarrow> bool" where
  "keys_comparable ks =
     (case ks of
        [] \<Rightarrow> True
      | k # _ \<Rightarrow> (case py_key k of
                   None \<Rightarrow> False
                 | Some x \<Rightarrow> list_all (\<lambda>k'. case py_key k' of None \<Rightarrow> False | Some y \<Rightarrow> same_kind x y) ks))"

definition sort_rank :: "pyval \<Rightarrow> pykey" where
  "sort_rank v = (case py_key v of Some k \<Rightarrow> k | None \<Rightarrow> KNum 0)"

definition py_sort_desc :: "(pyval \<Rightarrow> exc + pyval) \<Rightarrow> pyval list \<Rightarrow> exc + pyval list" where
  "py_sort_desc key xs =
     exc_bind (exc_map key xs) (\<lambda>ks.
       if 2 \<le> length xs \<and> \<not> keys_comparable ks then Inl TypeError
       else Inr (map fst (rev (sort_key (sort_rank \<circ> snd) (rev (zip xs ks))))))"

subsection \<open>Properties of \<open>max\<close> and \<open>sort\<close>\<close>

definition is_dict :: "pyval \<Rightarrow> bool" where
  "is_dict v = (case v of PDict _ \<Rightarrow> True | _ \<Rightarrow> False)"

text \<open>Two values Python can compare with \<open><\<close> and \<open>>\<close>.\<close>

definition same_kind_vals :: "pyval \<Rightarrow> pyval \<Rightarrow> bool" where
  "same_kind_vals a b =
     (case (py_key a, py_key b) of (Some x, Some y) \<Rightarrow> same_kind x y | _ \<Rightarrow> False)"

lemma py_gt_eq:
  "py_gt a b = (if same_kind_vals a b then Inr (sort_rank b < sort_rank a) else Inl TypeError)"
  by (auto simp: py_gt_def same_kind_vals_def sort_rank_def split: option.splits)

lemma same_kind_vals_sym: "same_kind_vals a b \<Longrightarrow> same_kind_vals b a"
  by (auto simp: same_kind_vals_def elim!: same_kind.elims split: option.splits)

lemma same_kind_vals_trans:
  "same_kind_vals a b \<Longrightarrow> same_kind_vals b c \<Longrightarrow> same_kind_vals a c"
  by (auto simp: same_kind_vals_def elim!: same_kind.elims split: option.splits)

lemma same_kind_vals_refl: "same_kind_vals a a \<longleftrightarrow> py_key a \<noteq> None"
  by (cases "py_key a") (auto simp: same_kind_vals_def elim: same_kind.elims)

lemma same_kind_vals_valid: "same_kind_vals a b \<Longrightarrow> py_key b \<noteq> None"
  by (auto simp: same_kind_vals_def split: option.splits)

lemma keys_comparable_Cons:
  "keys_comparable (a # ks) \<longleftrightarrow> (\<forall>k\<in>set (a # ks). same_kind_vals k a)"
  by (cases "py_key a")
     (auto simp: keys_comparable_def same_kind_vals_def list_all_iff same_kind_commute
       split: option.splits)

lemma py_max_from_total:
  "(\<forall>y\<in>set xs. key y = Inr (k y)) \<Longrightarrow> (\<forall>y\<in>set xs. same_kind_vals (k y) (k m)) \<Longrightarrow>
     py_max_from key m (k m) xs = Inr (first_max (sort_rank \<circ> k) m xs)"
proof (induction xs arbitrary: m)
  case Nil
  then show ?case by (simp add: first_max_def)
next
  case (Cons x xs)
  have kx: "key x = Inr (k x)" and skx: "same_kind_vals (k x) (k m)" using Cons.prems by auto
  have rest: "\<forall>y\<in>set xs. same_kind_vals (k y) (k x)"
    using Cons.prems skx by (meson list.set_intros(2) same_kind_vals_sym same_kind_vals_trans)
  show ?case
  proof (cases "sort_rank (k m) < sort_rank (k x)")
    case True
    with kx skx Cons.IH [of x] Cons.prems rest show ?thesis
      by (simp add: py_gt_eq first_max_Cons)
  next
    case False
    with kx skx Cons.IH [of m] Cons.prems show ?thesis
      by (simp add: py_gt_eq first_max_Cons)
  qed
qed

lemma py_max_from_TypeError:
  "(\<forall>y\<in>set xs. key y = Inr (k y)) \<Longrightarrow>
     py_max_from key m (k m) xs = Inl TypeError \<longleftrightarrow> (\<exists>y\<in>set xs. \<not> same_kind_vals (k y) (k m))"
proof (induction xs arbitrary: m)
  case Nil
  then show ?case by simp
next
  case (Cons x xs)
  have kx: "key x = Inr (k x)" using Cons.prems by simp
  show ?case
  proof (cases "same_kind_vals (k x) (k m)")
    case False
    with kx show ?thesis by (simp add: py_gt_eq)
  next
    case True
    then have eqv: "same_kind_vals (k y) (k x) \<longleftrightarrow> same_kind_vals (k y) (k m)" for y
      by (meson same_kind_vals_sym same_kind_vals_trans)
    from True kx Cons.IH [of x] Cons.IH [of m] Cons.prems show ?thesis
      by (simp add: py_gt_eq eqv)
  qed
qed

text \<open>\<open>max\<close> with a key that does not raise: \<open>ValueError\<close> on no items,
  \<open>TypeError\<close> exactly when two or more items have keys of different or unorderable
  kinds, otherwise the first item with the largest key.\<close>

lemma py_max_key_eq:
  "(\<forall>y\<in>set xs. key y = Inr (k y)) \<Longrightarrow>
     py_max_key key xs =
       (if xs = [] then Inl ValueError
        else if 2 \<le> length xs \<and> \<not> keys_comparable (map k xs) then Inl TypeError
        else Inr (first_max (sort_rank \<circ> k) (hd xs) (tl xs)))"
proof (cases xs)
  case Nil
  then show ?thesis by (simp add: py_max_key_def)
next
  case (Cons x xs')
  assume tot: "\<forall>y\<in>set xs. key y = Inr (k y)"
  then have kx: "key x = Inr (k x)" and tot': "\<forall>y\<in>set xs'. key y = Inr (k y)"
    using Cons by auto
  have iff: "(2 \<le> length xs \<and> \<not> keys_comparable (map k xs)) \<longleftrightarrow>
      (\<exists>y\<in>set xs'. \<not> same_kind_vals (k y) (k x))"
  proof (cases xs')
    case Nil
    with Cons show ?thesis by simp
  next
    case (Cons y ys)
    show ?thesis
    proof (cases "py_key (k x) = None")
      case True
      then have "\<not> same_kind_vals (k y) (k x)" by (auto dest: same_kind_vals_valid)
      with True Cons \<open>xs = x # xs'\<close> show ?thesis
        by (auto simp: keys_comparable_Cons)
    next
      case False
      with Cons \<open>xs = x # xs'\<close> show ?thesis
        by (auto simp: keys_comparable_Cons same_kind_vals_refl)
    qed
  qed
  show ?thesis
  proof (cases "\<exists>y\<in>set xs'. \<not> same_kind_vals (k y) (k x)")
    case True
    with kx tot' Cons iff show ?thesis
      by (simp add: py_max_key_def py_max_from_TypeError)
  next
    case False
    with kx tot' Cons iff show ?thesis
      by (simp add: py_max_key_def py_max_from_total)
  qed
qed

lemma zip_map_self: "zip xs (map k xs) = map (\<lambda>x. (x, k x)) xs"
  by (induction xs) auto

text \<open>\<open>sort(reverse=True)\<close> with a key that does not raise.\<close>

lemma py_sort_desc_eq:
  "(\<forall>y\<in>set xs. key y = Inr (k y)) \<Longrightarrow>
     py_sort_desc key xs =
       (if 2 \<le> length xs \<and> \<not> keys_comparable (map k xs) then Inl TypeError
        else Inr (rev (sort_key (sort_rank \<circ> k) (rev xs))))"
proof -
  assume tot: "\<forall>y\<in>set xs. key y = Inr (k y)"
  have "map fst (rev (sort_key (sort_rank \<circ> snd) (rev (zip xs (map k xs))))) =
      rev (sort_key (sort_rank \<circ> k) (rev xs))"
    by (simp add: zip_map_self rev_map sort_key_map_pair [of sort_rank k, simplified comp_def]
        comp_def del: sort_key_simps)
  moreover have "exc_map key xs = Inr (map k xs)" using tot by (rule exc_map_total)
  ultimately show ?thesis by (simp add: py_sort_desc_def)
qed

text \<open>The first item of the descending sort is the item \<open>max\<close> returns.\<close>

lemma py_max_key_hd_sort:
  "(\<forall>y\<in>set xs. key y = Inr (k y)) \<Longrightarrow> xs \<noteq> [] \<Longrightarrow> py_sort_desc key xs = Inr ys \<Longrightarrow>
     py_max_key key xs = Inr (hd ys)"
proof -
  assume tot: "\<forall>y\<in>set xs. key y = Inr (k y)" and ne: "xs \<noteq> []"
    and srt: "py_sort_desc key xs = Inr ys"
  let ?f = "sort_rank \<circ> k"
  have eq: "py_sort_desc key xs =
      (if 2 \<le> length xs \<and> \<not> keys_comparable (map k xs) then Inl TypeError
       else Inr (rev (sort_key ?f (rev xs))))"
    using tot by (rule py_sort_desc_eq)
  from srt eq have ok: "\<not> (2 \<le> length xs \<and> \<not> keys_comparable (map k xs))"
    and ys: "ys = rev (sort_key ?f (rev xs))"
    by (simp_all split: if_splits)
  have xs: "hd xs # tl xs = xs" using ne by simp
  have "py_max_key key xs = Inr (first_max ?f (hd xs) (tl xs))"
    using py_max_key_eq [OF tot] ne ok by simp
  also have "first_max ?f (hd xs) (tl xs) = hd (filter (\<lambda>y. ?f y = Max (?f ` set xs)) xs)"
    by (simp only: first_max_filter xs)
  also have "\<dots> = hd ys"
    using ne ys by (simp add: hd_rev_sort_key_rev)
  finally show ?thesis .
qed

end
