(* ===== verification/Extractors.thy ===== *)
theory Extractors
  imports PyValue
begin

text \<open>
  The strategies of \<open>MultiPlatformExtractor\<close> that delegate to \<open>yt_dlp\<close>
  (\<open>src/attached_assets/app_1750480725733.py\<close>): \<open>_instagram_yt_dlp\<close> (lines 47--84),
  \<open>extract_youtube\<close> (228--269) and \<open>extract_tiktok\<close> (271--302), and the result
  dictionaries all strategies return. The library call
  \<open>yt_dlp.YoutubeDL(opts).extract_info(url, download=False)\<close> is an oracle \<open>ydl\<close>,
  given which of the three option sets is used: it returns the info dictionary or raises.
  Everything the source does with that dictionary is modelled, including the exceptions
  \<open>max\<close>, \<open>sort\<close> and \<open>fmt['url']\<close> raise on formats with a missing URL or a
  \<open>None\<close> height, which escape the strategy.
\<close>

record media_link =
  link_label :: string
  link_url :: pyval
  link_quality :: string

record extraction =
  res_links :: "media_link list"
  res_title :: pyval
  res_source :: string

text \<open>The result dictionary: \<open>{'success': True, 'links', 'title', 'source'}\<close> or
  \<open>{'success': False, 'error'}\<close>.\<close>

datatype ext_result = Success extraction | Failure string

text \<open>The three option dictionaries passed to \<open>YoutubeDL\<close> (lines 49--55, 230--234,
  273--276).\<close>

datatype ydl_call = YdlInstagram | YdlYoutube | YdlTiktok

type_synonym ydl = "ydl_call \<Rightarrow> string \<Rightarrow> exc + pydict"

text \<open>\<open>info['formats']\<close>, iterated.\<close>

definition info_formats :: "pydict \<Rightarrow> exc + pyval list" where
  "info_formats info = exc_bind (py_getitem (PDict info) ''formats'') py_iter"

definition height_key :: "pyval \<Rightarrow> exc + pyval" where
  "height_key x = py_get x ''height'' (PInt 0)"

definition abr_key :: "pyval \<Rightarrow> exc + pyval" where
  "abr_key x = py_get x ''abr'' (PInt 0)"

subsection \<open>\<open>_instagram_yt_dlp\<close>\<close>

text \<open>\<open>f.get('vcodec') != 'none'\<close>.\<close>

definition has_video_codec :: "pyval \<Rightarrow> exc + bool" where
  "has_video_codec f = exc_bind (py_get f ''vcodec'' PNone) (\<lambda>v. Inr (v \<noteq> PStr ''none''))"

definition insta_video_link :: "pyval \<Rightarrow> exc + media_link" where
  "insta_video_link best_video =
     exc_bind (py_get best_video ''height'' (PStr ''unknown'')) (\<lambda>h.
     exc_bind (py_getitem best_video ''url'') (\<lambda>u.
       Inr \<lparr>link_label = ''Video '' @ py_str h @ ''p'', link_url = u, link_quality = py_str h\<rparr>))"

definition insta_ydl_links :: "pydict \<Rightarrow> exc + media_link list" where
  "insta_ydl_links info =
     (if dict_has info ''formats'' then
        exc_bind (info_formats info) (\<lambda>fs.
        exc_bind (exc_filter has_video_codec fs) (\<lambda>video_formats.
          if video_formats \<noteq> [] then
            exc_bind (py_max_key height_key video_formats) (\<lambda>best_video.
            exc_bind (insta_video_link best_video) (\<lambda>l. Inr [l]))
          else Inr []))
      else Inr [])"

definition instagram_yt_dlp :: "ydl \<Rightarrow> string \<Rightarrow> exc + ext_result" where
  "instagram_yt_dlp ydl url =
     exc_bind (ydl YdlInstagram url) (\<lambda>info.
     exc_bind (insta_ydl_links info) (\<lambda>links.
       let links = (if dict_has info ''url'' \<and> links = []
                    then links @ [\<lparr>link_label = ''Instagram Media'',
                                   link_url = dict_get info ''url'' PNone,
                                   link_quality = ''original''\<rparr>]
                    else links)
       in Inr (Success \<lparr>res_links = links,
                        res_title = dict_get info ''title'' (PStr ''Instagram Media''),
                        res_source = ''yt-dlp''\<rparr>)))"

subsection \<open>\<open>extract_youtube\<close>\<close>

text \<open>\<open>f.get('vcodec') != 'none' and f.get('url')\<close>, with Python's short circuit.\<close>

definition yt_is_video :: "pyval \<Rightarrow> exc + bool" where
  "yt_is_video f =
     exc_bind (py_get f ''vcodec'' PNone) (\<lambda>v.
       if v \<noteq> PStr ''none'' then exc_bind (py_get f ''url'' PNone) (\<lambda>u. Inr (py_truthy u))
       else Inr False)"

text \<open>\<open>f.get('acodec') != 'none' and f.get('vcodec') == 'none'\<close>.\<close>

definition yt_is_audio :: "pyval \<Rightarrow> exc + bool" where
  "yt_is_audio f =
     exc_bind (py_get f ''acodec'' PNone) (\<lambda>a.
       if a \<noteq> PStr ''none'' then exc_bind (py_get f ''vcodec'' PNone) (\<lambda>v. Inr (v = PStr ''none''))
       else Inr False)"

definition yt_video_link :: "pyval \<Rightarrow> exc + media_link" where
  "yt_video_link fmt =
     exc_bind (py_get fmt ''height'' (PStr ''unknown'')) (\<lambda>h.
     exc_bind (py_get fmt ''ext'' (PStr ''mp4'')) (\<lambda>e.
     exc_bind (py_getitem fmt ''url'') (\<lambda>u.
       Inr \<lparr>link_label = ''Video '' @ py_str h @ ''p ('' @ py_str e @ '')'',
            link_url = u, link_quality = py_str h\<rparr>)))"

definition yt_audio_link :: "pyval \<Rightarrow> exc + media_link" where
  "yt_audio_link best_audio =
     exc_bind (py_get best_audio ''ext'' (PStr ''mp3'')) (\<lambda>e.
     exc_bind (py_getitem best_audio ''url'') (\<lambda>u.
       Inr \<lparr>link_label = ''Audio Only ('' @ py_str e @ '')'', link_url = u, link_quality = ''audio''\<rparr>))"

definition yt_links :: "pydict \<Rightarrow> exc + media_link list" where
  "yt_links info =
     (if dict_has info ''formats'' then
        exc_bind (info_formats info) (\<lambda>fs.
        exc_bind (exc_filter yt_is_video fs) (\<lambda>video_formats.
        exc_bind (py_sort_desc height_key video_formats) (\<lambda>video_formats.
        exc_bind (exc_map yt_video_link (take 3 video_formats)) (\<lambda>vlinks.
        exc_bind (info_formats info) (\<lambda>fs'.
        exc_bind (exc_filter yt_is_audio fs') (\<lambda>audio_formats.
          if audio_formats \<noteq> [] then
            exc_bind (py_max_key abr_key audio_formats) (\<lambda>best_audio.
            exc_bind (yt_audio_link best_audio) (\<lambda>a. Inr (vlinks @ [a])))
          else Inr vlinks))))))
      else Inr [])"

definition extract_youtube :: "ydl \<Rightarrow> string \<Rightarrow> exc + ext_result" where
  "extract_youtube ydl url =
     exc_bind (ydl YdlYoutube url) (\<lambda>info.
     exc_bind (yt_links info) (\<lambda>links.
       Inr (Success \<lparr>res_links = links,
                     res_title = dict_get info ''title'' (PStr ''YouTube Video''),
                     res_source = ''yt-dlp''\<rparr>)))"

subsection \<open>\<open>extract_tiktok\<close>\<close>

definition has_url :: "pyval \<Rightarrow> exc + bool" where
  "has_url f = exc_bind (py_get f ''url'' PNone) (\<lambda>u. Inr (py_truthy u))"

definition tt_link :: "pyval \<Rightarrow> exc + media_link" where
  "tt_link fmt =
     exc_bind (py_get fmt ''ext'' (PStr ''mp4'')) (\<lambda>e.
     exc_bind (py_getitem fmt ''url'') (\<lambda>u.
     exc_bind (py_get fmt ''height'' (PStr ''original'')) (\<lambda>h.
       Inr \<lparr>link_label = ''TikTok Video ('' @ py_str e @ '')'', link_url = u, link_quality = py_str h\<rparr>)))"

definition tt_links :: "pydict \<Rightarrow> exc + media_link list" where
  "tt_links info =
     (if dict_has info ''formats'' then
        exc_bind (info_formats info) (\<lambda>fs.
        exc_bind (exc_filter has_url fs) (\<lambda>video_formats.
          exc_map tt_link video_formats))
      else if dict_has info ''url'' then
        Inr [\<lparr>link_label = ''TikTok Video'', link_url = dict_get info ''url'' PNone,
              link_quality = ''original''\<rparr>]
      else Inr [])"

definition extract_tiktok :: "ydl \<Rightarrow> string \<Rightarrow> exc + ext_result" where
  "extract_tiktok ydl url =
     exc_bind (ydl YdlTiktok url) (\<lambda>info.
     exc_bind (tt_links info) (\<lambda>links.
       Inr (Success \<lparr>res_links = links,
                     res_title = dict_get info ''title'' (PStr ''TikTok Video''),
                     res_source = ''yt-dlp''\<rparr>)))"

subsection \<open>Properties\<close>

text \<open>The conditions of the comprehensions of \<open>extract_youtube\<close> and
  \<open>extract_tiktok\<close>, read on a dictionary.\<close>

definition url_of :: "pyval \<Rightarrow> pyval" where
  "url_of f = (case f of PDict d \<Rightarrow> dict_get d ''url'' PNone | _ \<Rightarrow> PNone)"

definition is_yt_video :: "pyval \<Rightarrow> bool" where
  "is_yt_video f =
     (case f of PDict d \<Rightarrow> dict_get d ''vcodec'' PNone \<noteq> PStr ''none'' \<and> py_truthy (url_of f)
              | _ \<Rightarrow> False)"

text \<open>The condition of the comprehension of \<open>_instagram_yt_dlp\<close> (line 63).\<close>

definition is_video_codec :: "pyval \<Rightarrow> bool" where
  "is_video_codec f = (case f of PDict d \<Rightarrow> dict_get d ''vcodec'' PNone \<noteq> PStr ''none'' | _ \<Rightarrow> False)"

text \<open>The height a format is ranked by: \<open>f.get('height', 0)\<close> of a dictionary.\<close>

definition height_of :: "pyval \<Rightarrow> pyval" where
  "height_of f = (case f of PDict d \<Rightarrow> dict_get d ''height'' (PInt 0) | _ \<Rightarrow> PNone)"

lemma height_key_total: "\<forall>f\<in>set fs. is_dict f \<Longrightarrow> \<forall>f\<in>set fs. height_key f = Inr (height_of f)"
  by (auto simp: is_dict_def height_key_def height_of_def split: pyval.splits)

text \<open>What the witnesses evaluate: every definition of the strategies.\<close>

lemmas extractor_defs = instagram_yt_dlp_def insta_ydl_links_def insta_video_link_def
  has_video_codec_def extract_youtube_def yt_links_def yt_is_video_def yt_is_audio_def
  yt_video_link_def yt_audio_link_def extract_tiktok_def tt_links_def tt_link_def has_url_def
  info_formats_def height_key_def abr_key_def py_sort_desc_def keys_comparable_def sort_rank_def
  py_max_key_def py_gt_def dict_get_def dict_has_def

lemma yt_filter_video:
  "\<forall>f\<in>set fs. is_dict f \<Longrightarrow> exc_filter yt_is_video fs = Inr (filter is_yt_video fs)"
  by (rule exc_filter_total)
     (auto simp: is_dict_def yt_is_video_def is_yt_video_def url_of_def split: pyval.splits)

lemma tt_filter_url:
  "\<forall>f\<in>set fs. is_dict f \<Longrightarrow> exc_filter has_url fs = Inr (filter (py_truthy \<circ> url_of) fs)"
  by (rule exc_filter_total) (auto simp: is_dict_def has_url_def url_of_def split: pyval.splits)

lemma tt_link_url:
  "is_dict f \<Longrightarrow> py_truthy (url_of f) \<Longrightarrow> \<exists>l. tt_link f = Inr l \<and> link_url l = url_of f"
  by (auto simp: is_dict_def tt_link_def url_of_def dict_get_def split: pyval.splits option.splits)

lemma insta_ydl_links_length: "insta_ydl_links info = Inr ls \<Longrightarrow> length ls \<le> 1"
  unfolding insta_ydl_links_def by (auto simp: exc_bind_eq_Inr split: if_splits)

lemma yt_links_length: "yt_links info = Inr ls \<Longrightarrow> length ls \<le> 4"
  unfolding yt_links_def
  by (auto simp: exc_bind_eq_Inr split: if_splits dest!: exc_map_Inr_length)

lemma insta_filter_video:
  "\<forall>f\<in>set fs. is_dict f \<Longrightarrow> exc_filter has_video_codec fs = Inr (filter is_video_codec fs)"
  by (rule exc_filter_total)
     (auto simp: is_dict_def has_video_codec_def is_video_codec_def split: pyval.splits)

lemma insta_video_link_not_TypeError: "is_dict f \<Longrightarrow> insta_video_link f \<noteq> Inl TypeError"
  by (auto simp: is_dict_def insta_video_link_def split: pyval.splits option.splits)

lemma insta_ydl_links_formats:
  "dict_has info ''formats'' \<Longrightarrow> info_formats info = Inr fs \<Longrightarrow> \<forall>f\<in>set fs. is_dict f \<Longrightarrow>
     insta_ydl_links info =
       (if filter is_video_codec fs = [] then Inr []
        else exc_bind (py_max_key height_key (filter is_video_codec fs)) (\<lambda>b.
               exc_bind (insta_video_link b) (\<lambda>l. Inr [l])))"
  by (simp add: insta_ydl_links_def insta_filter_video)

lemma is_yt_video_codec: "is_dict f \<Longrightarrow> py_truthy (url_of f) \<Longrightarrow> is_yt_video f = is_video_codec f"
  by (auto simp: is_dict_def is_yt_video_def is_video_codec_def split: pyval.splits)

lemma video_links_same_format:
  "insta_video_link m = Inr l1 \<Longrightarrow> yt_video_link m = Inr l2 \<Longrightarrow>
     link_url l1 = link_url l2 \<and> link_quality l1 = link_quality l2"
  by (auto simp: insta_video_link_def yt_video_link_def exc_bind_eq_Inr)

text \<open>C11: the two strategies that rank formats by height choose the same best video:
  when \<open>yt_dlp\<close> gives both the same info dictionary, every format has a URL and some
  format has video, the single link of \<open>_instagram_yt_dlp\<close> (the first maximum of
  \<open>max\<close>) and the first link of \<open>extract_youtube\<close> (the head of the stable descending
  sort, after its own filter) have the same URL and quality.\<close>

theorem instagram_youtube_same_best_video:
  "ydl YdlInstagram url = Inr info \<Longrightarrow> ydl YdlYoutube url = Inr info \<Longrightarrow>
   dict_has info ''formats'' \<Longrightarrow> info_formats info = Inr fs \<Longrightarrow>
   \<forall>f\<in>set fs. is_dict f \<and> py_truthy (url_of f) \<Longrightarrow> filter is_yt_video fs \<noteq> [] \<Longrightarrow>
   instagram_yt_dlp ydl url = Inr (Success e1) \<Longrightarrow> extract_youtube ydl url = Inr (Success e2) \<Longrightarrow>
     \<exists>l1 l2 ls1 ls2. res_links e1 = l1 # ls1 \<and> res_links e2 = l2 # ls2 \<and>
       link_url l1 = link_url l2 \<and> link_quality l1 = link_quality l2"
proof -
  assume yi: "ydl YdlInstagram url = Inr info" and yy: "ydl YdlYoutube url = Inr info"
    and h: "dict_has info ''formats''" and fs: "info_formats info = Inr fs"
    and du: "\<forall>f\<in>set fs. is_dict f \<and> py_truthy (url_of f)" and ne: "filter is_yt_video fs \<noteq> []"
    and si: "instagram_yt_dlp ydl url = Inr (Success e1)" and sy: "extract_youtube ydl url = Inr (Success e2)"
  let ?vf = "filter is_yt_video fs"
  have d: "\<forall>f\<in>set fs. is_dict f" using du by blast
  have same: "filter is_video_codec fs = ?vf"
    using du by (intro filter_cong) (auto simp: is_yt_video_codec)
  have dv: "\<forall>f\<in>set ?vf. is_dict f" using d by simp
  text \<open>The YouTube side: the sort succeeded and the first link is built from its head.\<close>
  from sy yy obtain links where yl: "yt_links info = Inr links" and e2: "res_links e2 = links"
    by (auto simp: extract_youtube_def exc_bind_eq_Inr)
  from yl h fs obtain ys vlinks where srt: "py_sort_desc height_key ?vf = Inr ys"
    and vl: "exc_map yt_video_link (take 3 ys) = Inr vlinks" and pre: "prefix vlinks links"
    by (auto simp: yt_links_def yt_filter_video [OF d] exc_bind_eq_Inr split: if_splits)
  have ys_ne: "ys \<noteq> []"
    using srt ne py_sort_desc_eq [OF height_key_total [OF dv]] by (auto split: if_splits dest!: arg_cong [where f = length])
  then obtain y ys' where ys: "ys = y # ys'" by (cases ys) auto
  from vl ys obtain l2 vs where vl2: "vlinks = l2 # vs" and l2: "yt_video_link y = Inr l2"
    by (auto simp: exc_bind_eq_Inr)
  text \<open>The Instagram side: \<open>max\<close> picks the head of that sort.\<close>
  have mx: "py_max_key height_key ?vf = Inr y"
    using py_max_key_hd_sort [OF height_key_total [OF dv] ne srt] ys by simp
  from si yi obtain links1 where il: "insta_ydl_links info = Inr links1"
    and e1: "res_links e1 = (if dict_has info ''url'' \<and> links1 = [] then links1 @ [\<lparr>link_label = ''Instagram Media'',
        link_url = dict_get info ''url'' PNone, link_quality = ''original''\<rparr>] else links1)"
    by (auto simp: instagram_yt_dlp_def exc_bind_eq_Inr Let_def)
  from il obtain l1 where l1: "insta_video_link y = Inr l1" and links1: "links1 = [l1]"
    using ne mx by (auto simp: insta_ydl_links_formats [OF h fs d] same exc_bind_eq_Inr)
  show ?thesis
    using video_links_same_format [OF l1 l2] e1 links1 e2 pre vl2 by (auto simp: prefix_def)
qed

theorem instagram_youtube_same_best_video_witness:
  "\<exists>e1 e2.
     instagram_yt_dlp (\<lambda>_ _. Inr [(''formats'', PList [PDict [(''height'', PInt 720), (''url'', PStr ''v1'')],
        PDict [(''height'', PInt 1080), (''url'', PStr ''v2'')], PDict [(''height'', PInt 1080), (''url'', PStr ''v3'')]])])
       ''https://youtu.be/x'' = Inr (Success e1) \<and>
     extract_youtube (\<lambda>_ _. Inr [(''formats'', PList [PDict [(''height'', PInt 720), (''url'', PStr ''v1'')],
        PDict [(''height'', PInt 1080), (''url'', PStr ''v2'')], PDict [(''height'', PInt 1080), (''url'', PStr ''v3'')]])])
       ''https://youtu.be/x'' = Inr (Success e2) \<and>
     (\<exists>l1 l2 ls1 ls2. res_links e1 = l1 # ls1 \<and> res_links e2 = l2 # ls2 \<and>
        link_url l1 = link_url l2 \<and> link_quality l1 = link_quality l2)"
proof -
  let ?fs = "[PDict [(''height'', PInt 720), (''url'', PStr ''v1'')],
        PDict [(''height'', PInt 1080), (''url'', PStr ''v2'')], PDict [(''height'', PInt 1080), (''url'', PStr ''v3'')]]"
  let ?info = "[(''formats'', PList ?fs)]"
  let ?ydl = "(\<lambda>_ _. Inr ?info) :: ydl"
  have h: "dict_has ?info ''formats''" by (simp add: dict_has_def)
  have fs: "info_formats ?info = Inr ?fs" by (simp add: info_formats_def)
  have du: "\<forall>f\<in>set ?fs. is_dict f \<and> py_truthy (url_of f)" by (simp add: is_dict_def url_of_def dict_get_def)
  have ne: "filter is_yt_video ?fs \<noteq> []" by (simp add: is_yt_video_def url_of_def dict_get_def)
  have si: "instagram_yt_dlp ?ydl ''https://youtu.be/x'' =
      Inr (Success \<lparr>res_links = [\<lparr>link_label = ''Video 1080p'', link_url = PStr ''v2'', link_quality = ''1080''\<rparr>],
                    res_title = PStr ''Instagram Media'', res_source = ''yt-dlp''\<rparr>)"
    by code_simp
  have sy: "extract_youtube ?ydl ''https://youtu.be/x'' =
      Inr (Success \<lparr>res_links = [\<lparr>link_label = ''Video 1080p (mp4)'', link_url = PStr ''v2'', link_quality = ''1080''\<rparr>,
                                   \<lparr>link_label = ''Video 1080p (mp4)'', link_url = PStr ''v3'', link_quality = ''1080''\<rparr>,
                                   \<lparr>link_label = ''Video 720p (mp4)'', link_url = PStr ''v1'', link_quality = ''720''\<rparr>],
                    res_title = PStr ''YouTube Video'', res_source = ''yt-dlp''\<rparr>)"
    by code_simp
  show ?thesis
    using si sy instagram_youtube_same_best_video [OF _ _ h fs du ne si sy] by blast
qed

text \<open>C12: \<open>_instagram_yt_dlp\<close> raises \<open>TypeError\<close> exactly when two or more
  formats pass its filter (\<open>vcodec\<close> not \<open>'none'\<close>, URL not required) and their heights are
  not all numbers or all strings, as when one reports \<open>'height': None\<close>; the strategy
  then fails and the orchestrator goes on to the next one.\<close>

theorem instagram_yt_dlp_TypeError_iff:
  "ydl YdlInstagram url = Inr info \<Longrightarrow> dict_has info ''formats'' \<Longrightarrow> info_formats info = Inr fs \<Longrightarrow>
   \<forall>f\<in>set fs. is_dict f \<Longrightarrow>
     instagram_yt_dlp ydl url = Inl TypeError \<longleftrightarrow>
       2 \<le> length (filter is_video_codec fs) \<and> \<not> keys_comparable (map height_of (filter is_video_codec fs))"
proof -
  assume y: "ydl YdlInstagram url = Inr info" and h: "dict_has info ''formats''"
    and fs: "info_formats info = Inr fs" and d: "\<forall>f\<in>set fs. is_dict f"
  let ?vf = "filter is_video_codec fs"
  have dv: "\<forall>f\<in>set ?vf. is_dict f" using d by simp
  have mx: "py_max_key height_key ?vf =
      (if ?vf = [] then Inl ValueError
       else if 2 \<le> length ?vf \<and> \<not> keys_comparable (map height_of ?vf) then Inl TypeError
       else Inr (first_max (sort_rank \<circ> height_of) (hd ?vf) (tl ?vf)))"
    by (rule py_max_key_eq [OF height_key_total [OF dv]])
  have best: "is_dict (first_max (sort_rank \<circ> height_of) (hd ?vf) (tl ?vf))" if "?vf \<noteq> []"
  proof -
    have "first_max (sort_rank \<circ> height_of) (hd ?vf) (tl ?vf) \<in> set ?vf"
      using that first_max_in [of "sort_rank \<circ> height_of" "hd ?vf" "tl ?vf"] by (cases ?vf) auto
    then show ?thesis using dv by blast
  qed
  have "instagram_yt_dlp ydl url = Inl TypeError \<longleftrightarrow> insta_ydl_links info = Inl TypeError"
    using y by (auto simp: instagram_yt_dlp_def exc_bind_eq_Inl Let_def split: sum.splits)
  also have "\<dots> \<longleftrightarrow> 2 \<le> length ?vf \<and> \<not> keys_comparable (map height_of ?vf)"
    using mx best insta_video_link_not_TypeError
    by (auto simp: insta_ydl_links_formats [OF h fs d] exc_bind_eq_Inl)
  finally show ?thesis .
qed

theorem instagram_yt_dlp_TypeError_iff_witness:
  "instagram_yt_dlp (\<lambda>_ _. Inr [(''formats'', PList [PDict [(''height'', PNone), (''url'', PStr ''v1'')],
      PDict [(''height'', PInt 720), (''url'', PStr ''v2'')]])]) ''https://www.instagram.com/p/ABC123/'' = Inl TypeError"
proof -
  let ?fs = "[PDict [(''height'', PNone), (''url'', PStr ''v1'')], PDict [(''height'', PInt 720), (''url'', PStr ''v2'')]]"
  let ?info = "[(''formats'', PList ?fs)]"
  have h: "dict_has ?info ''formats''" by (simp add: dict_has_def)
  have fs: "info_formats ?info = Inr ?fs" by (simp add: info_formats_def)
  have d: "\<forall>f\<in>set ?fs. is_dict f" by (simp add: is_dict_def)
  have "2 \<le> length (filter is_video_codec ?fs) \<and> \<not> keys_comparable (map height_of (filter is_video_codec ?fs))"
    by (simp add: is_video_codec_def dict_get_def height_of_def keys_comparable_def)
  then show ?thesis
    using instagram_yt_dlp_TypeError_iff [OF _ h fs d, of "\<lambda>_ _. Inr ?info"] by simp
qed

text \<open>C13: a successful YouTube extraction offers at most four links: the three highest
  video formats and one audio format.\<close>

theorem extract_youtube_at_most_four:
  "extract_youtube ydl url = Inr (Success r) \<Longrightarrow> length (res_links r) \<le> 4"
  unfolding extract_youtube_def by (auto simp: exc_bind_eq_Inr dest: yt_links_length)

theorem extract_youtube_at_most_four_witness:
  "\<exists>r. extract_youtube
         (\<lambda>_ _. Inr [(''formats'', PList
            [PDict [(''height'', PInt 360), (''url'', PStr ''v1'')],
             PDict [(''height'', PInt 480), (''url'', PStr ''v2'')],
             PDict [(''height'', PInt 720), (''url'', PStr ''v3'')],
             PDict [(''height'', PInt 1080), (''url'', PStr ''v4'')],
             PDict [(''vcodec'', PStr ''none''), (''abr'', PInt 128), (''url'', PStr ''a'')]])])
         ''https://youtu.be/x'' = Inr (Success r) \<and> length (res_links r) \<le> 4"
proof -
  obtain r where r: "extract_youtube
         (\<lambda>_ _. Inr [(''formats'', PList
            [PDict [(''height'', PInt 360), (''url'', PStr ''v1'')],
             PDict [(''height'', PInt 480), (''url'', PStr ''v2'')],
             PDict [(''height'', PInt 720), (''url'', PStr ''v3'')],
             PDict [(''height'', PInt 1080), (''url'', PStr ''v4'')],
             PDict [(''vcodec'', PStr ''none''), (''abr'', PInt 128), (''url'', PStr ''a'')]])])
         ''https://youtu.be/x'' = Inr (Success r)"
    by (simp add: extractor_defs yt_video_link_def)
  show ?thesis using r extract_youtube_at_most_four [OF r] by blast
qed

text \<open>C14: when two or more video formats have heights Python cannot order against each
  other (a \<open>None\<close> height beside a number), \<open>extract_youtube\<close> raises
  \<open>TypeError\<close> out of its \<open>sort\<close>; nothing in the strategy catches it.\<close>

theorem extract_youtube_unorderable_heights:
  "ydl YdlYoutube url = Inr info \<Longrightarrow> dict_has info ''formats'' \<Longrightarrow> info_formats info = Inr fs \<Longrightarrow>
   \<forall>f\<in>set fs. is_dict f \<Longrightarrow> 2 \<le> length (filter is_yt_video fs) \<Longrightarrow>
   \<not> keys_comparable (map height_of (filter is_yt_video fs)) \<Longrightarrow>
     extract_youtube ydl url = Inl TypeError"
proof -
  assume y: "ydl YdlYoutube url = Inr info" and h: "dict_has info ''formats''"
    and fs: "info_formats info = Inr fs" and d: "\<forall>f\<in>set fs. is_dict f"
    and two: "2 \<le> length (filter is_yt_video fs)"
    and nc: "\<not> keys_comparable (map height_of (filter is_yt_video fs))"
  have d': "\<forall>f\<in>set (filter is_yt_video fs). is_dict f" using d by simp
  have "py_sort_desc height_key (filter is_yt_video fs) = Inl TypeError"
    using py_sort_desc_eq [OF height_key_total [OF d']] two nc by simp
  with y h fs yt_filter_video [OF d] show ?thesis
    by (simp add: extract_youtube_def yt_links_def)
qed

theorem extract_youtube_unorderable_heights_witness:
  "extract_youtube
     (\<lambda>_ _. Inr [(''formats'', PList [PDict [(''height'', PNone), (''url'', PStr ''v1'')],
                                       PDict [(''height'', PInt 720), (''url'', PStr ''v2'')]])])
     ''https://www.youtube.com/watch?v=x'' = Inl TypeError"
proof -
  let ?fs = "[PDict [(''height'', PNone), (''url'', PStr ''v1'')],
              PDict [(''height'', PInt 720), (''url'', PStr ''v2'')]]"
  let ?info = "[(''formats'', PList ?fs)]"
  have d: "\<forall>f\<in>set ?fs. is_dict f" by (simp add: is_dict_def)
  have fs: "info_formats ?info = Inr ?fs" by (simp add: info_formats_def)
  have h: "dict_has ?info ''formats''" by (simp add: dict_has_def)
  have two: "2 \<le> length (filter is_yt_video ?fs)"
    by (simp add: is_yt_video_def url_of_def dict_get_def)
  have nc: "\<not> keys_comparable (map height_of (filter is_yt_video ?fs))"
    by (simp add: is_yt_video_def url_of_def dict_get_def height_of_def keys_comparable_def)
  show ?thesis
    by (rule extract_youtube_unorderable_heights [OF _ h fs d two nc]) simp
qed

text \<open>C15: \<open>_instagram_yt_dlp\<close> never reports failure as a value: it returns a success
  with at most one link (the best video format, or else the top-level media URL), or
  raises.\<close>

theorem instagram_yt_dlp_at_most_one:
  "instagram_yt_dlp ydl url = Inr r \<Longrightarrow> \<exists>e. r = Success e \<and> length (res_links e) \<le> 1"
  unfolding instagram_yt_dlp_def
  by (auto simp: exc_bind_eq_Inr Let_def dest: insta_ydl_links_length)

theorem instagram_yt_dlp_at_most_one_witness:
  "\<exists>e. instagram_yt_dlp (\<lambda>_ _. Inr [(''url'', PStr ''https://cdn/x.mp4'')]) ''u'' = Inr (Success e) \<and>
       length (res_links e) \<le> 1"
proof -
  have r: "instagram_yt_dlp (\<lambda>_ _. Inr [(''url'', PStr ''https://cdn/x.mp4'')]) ''u'' =
      Inr (Success \<lparr>res_links = [\<lparr>link_label = ''Instagram Media'', link_url = PStr ''https://cdn/x.mp4'',
        link_quality = ''original''\<rparr>], res_title = PStr ''Instagram Media'', res_source = ''yt-dlp''\<rparr>)"
    by (simp add: extractor_defs)
  show ?thesis using instagram_yt_dlp_at_most_one [OF r] r by auto
qed

text \<open>C16: when the info dictionary has \<open>formats\<close>, \<open>extract_tiktok\<close> succeeds with one
  link per format that has a URL, in order, and the top-level URL is not consulted, even
  when no format has one.\<close>

theorem extract_tiktok_one_link_per_format:
  "ydl YdlTiktok url = Inr info \<Longrightarrow> dict_has info ''formats'' \<Longrightarrow> info_formats info = Inr fs \<Longrightarrow>
   \<forall>f\<in>set fs. is_dict f \<Longrightarrow>
     \<exists>e. extract_tiktok ydl url = Inr (Success e) \<and>
         map link_url (res_links e) = map url_of (filter (py_truthy \<circ> url_of) fs)"
proof -
  assume y: "ydl YdlTiktok url = Inr info" and h: "dict_has info ''formats''"
    and fs: "info_formats info = Inr fs" and d: "\<forall>f\<in>set fs. is_dict f"
  let ?vf = "filter (py_truthy \<circ> url_of) fs"
  have "\<forall>f\<in>set ?vf. \<exists>l. tt_link f = Inr l \<and> link_url l = url_of f"
    using d by (auto intro: tt_link_url)
  then obtain ls where ls: "exc_map tt_link ?vf = Inr ls"
    and all2: "list_all2 (\<lambda>f l. link_url l = url_of f) ?vf ls"
    using exc_map_Inr_all2 [of ?vf tt_link "\<lambda>f l. link_url l = url_of f"] by blast
  from all2 have "map link_url ls = map url_of ?vf"
    by (induction rule: list_all2_induct) auto
  with y h fs ls tt_filter_url [OF d] show ?thesis
    by (simp add: extract_tiktok_def tt_links_def)
qed

theorem extract_tiktok_one_link_per_format_witness:
  "\<exists>e. extract_tiktok (\<lambda>_ _. Inr [(''formats'', PList [PDict [(''ext'', PStr ''mp4'')]]),
                                (''url'', PStr ''https://cdn/v.mp4'')]) ''u'' = Inr (Success e) \<and>
       map link_url (res_links e) = []"
proof -
  let ?info = "[(''formats'', PList [PDict [(''ext'', PStr ''mp4'')]]), (''url'', PStr ''https://cdn/v.mp4'')]"
  have h: "dict_has ?info ''formats''" by (simp add: dict_has_def)
  have fs: "info_formats ?info = Inr [PDict [(''ext'', PStr ''mp4'')]]" by (simp add: info_formats_def)
  have d: "\<forall>f\<in>set [PDict [(''ext'', PStr ''mp4'')]]. is_dict f" by (simp add: is_dict_def)
  show ?thesis
    using extract_tiktok_one_link_per_format [of "\<lambda>_ _. Inr ?info" "''u''", OF _ h fs d]
    by (simp add: url_of_def dict_get_def)
qed

end
