(* ===== verification/Scrape.thy ===== *)
theory Scrape
  imports Prelude
begin

text \<open>
  The text processing of the Instagram strategies in
  \<open>src/attached_assets/app_1750480725733.py\<close>: the shortcode search
  \<open>re.search(r'(?:\/p\/|\/reel\/|\/tv\/)([a-zA-Z0-9_-]+)', url)\<close> (lines 89 and 138),
  the four \<open>re.findall\<close> patterns of the embed scrape (lines 166--171), the clean-up of a
  match (line 178) and the choice of the first usable media URL (lines 173--189). Each
  regular expression is translated into the scan its regular-expression engine performs
  for it: leftmost match first, alternatives in order, greedy character classes.
\<close>

subsection \<open>The shortcode\<close>

text \<open>\<open>[a-zA-Z0-9_-]\<close>.\<close>

definition shortcode_char :: "char \<Rightarrow> bool" where
  "shortcode_char c =
     (let n = (of_char c :: nat) in
      (48 \<le> n \<and> n \<le> 57) \<or> (65 \<le> n \<and> n \<le> 90) \<or> (97 \<le> n \<and> n \<le> 122) \<or> n = 95 \<or> n = 45)"

definition shortcode_markers :: "string list" where
  "shortcode_markers = [''/p/'', ''/reel/'', ''/tv/'']"

text \<open>A match at the current position: the first alternative that is present and is
  followed by at least one shortcode character; the group takes all of them.\<close>

fun shortcode_at :: "string list \<Rightarrow> string \<Rightarrow> string option" where
  "shortcode_at [] s = None"
| "shortcode_at (m # ms) s =
     (if starts_with m s \<and> takeWhile shortcode_char (drop (length m) s) \<noteq> []
      then Some (takeWhile shortcode_char (drop (length m) s))
      else shortcode_at ms s)"

text \<open>\<open>re.search(...).group(1)\<close>: the leftmost position with a match.\<close>

fun search_shortcode :: "string \<Rightarrow> string option" where
  "search_shortcode [] = None"
| "search_shortcode (c # cs) =
     (case shortcode_at shortcode_markers (c # cs) of
        Some r \<Rightarrow> Some r
      | None \<Rightarrow> search_shortcode cs)"

subsection \<open>The embed patterns\<close>

definition DQ :: char where "DQ = CHR 0x22"

definition BSL :: char where "BSL = CHR 0x5C"

text \<open>Each of the four patterns is a literal, a group of characters other than
  \<open>"\<close> with a condition on it, and a closing \<open>"\<close>:
  \<open>"video_url":"([^"]+)"\<close>, \<open>"display_url":"([^"]+)"\<close>, \<open>videoUrl":"([^"]+)"\<close>
  (a non-empty group) and \<open>src="([^"]*\.mp4[^"]*)"\<close> (a group containing \<open>.mp4\<close>).
  The group can hold no \<open>"\<close> and must be followed by one, so it is the whole run of
  non-quote characters after the literal: a match at a position is unique.\<close>

definition embed_patterns :: "(string \<times> (string \<Rightarrow> bool)) list" where
  "embed_patterns =
     [(DQ # ''video_url'' @ [DQ, CHR '':'', DQ], \<lambda>g. g \<noteq> []),
      (DQ # ''display_url'' @ [DQ, CHR '':'', DQ], \<lambda>g. g \<noteq> []),
      (''videoUrl'' @ [DQ, CHR '':'', DQ], \<lambda>g. g \<noteq> []),
      (''src='' @ [DQ], \<lambda>g. py_contains ''.mp4'' g)]"

text \<open>The match of literal \<open>lit\<close> and group condition \<open>ok\<close> at the start of \<open>s\<close>:
  the group and the text after the closing quote.\<close>

definition quoted_at :: "string \<Rightarrow> (string \<Rightarrow> bool) \<Rightarrow> string \<Rightarrow> (string \<times> string) option" where
  "quoted_at lit ok s =
     (if starts_with lit s then
        (let r = drop (length lit) s; g = takeWhile (\<lambda>c. c \<noteq> DQ) r; rest = dropWhile (\<lambda>c. c \<noteq> DQ) r
         in if rest \<noteq> [] \<and> ok g then Some (g, tl rest) else None)
      else None)"

lemma quoted_at_shorter: "quoted_at lit ok s = Some (g, rest) \<Longrightarrow> length rest < length s"
proof -
  assume q: "quoted_at lit ok s = Some (g, rest)"
  let ?r = "drop (length lit) s"
  from q have ne: "dropWhile (\<lambda>c. c \<noteq> DQ) ?r \<noteq> []"
    and rest: "rest = tl (dropWhile (\<lambda>c. c \<noteq> DQ) ?r)"
    by (auto simp: quoted_at_def Let_def split: if_splits)
  have "length (dropWhile (\<lambda>c. c \<noteq> DQ) ?r) \<le> length s"
    by (metis length_dropWhile_le length_drop diff_le_self order_trans)
  with ne rest show ?thesis by (cases "dropWhile (\<lambda>c. c \<noteq> DQ) ?r") auto
qed

text \<open>\<open>re.findall(pattern, content)\<close>: the groups of the non-overlapping matches, left to
  right; after a match the scan resumes behind it.\<close>

function findall_quoted :: "string \<Rightarrow> (string \<Rightarrow> bool) \<Rightarrow> string \<Rightarrow> string list" where
  "findall_quoted lit ok [] = []"
| "findall_quoted lit ok (c # cs) =
     (case quoted_at lit ok (c # cs) of
        Some (g, rest) \<Rightarrow> g # findall_quoted lit ok rest
      | None \<Rightarrow> findall_quoted lit ok cs)"
  by pat_completeness auto
termination
  by (relation "measure (\<lambda>(_, _, s). length s)") (auto dest: quoted_at_shorter)

text \<open>\<open>match.replace('\\u0026', '&').replace('\\/', '/').replace('\\', '')\<close>.\<close>

definition clean_url :: "string \<Rightarrow> string" where
  "clean_url m =
     py_replace [BSL] [] (py_replace [BSL, CHR ''/''] ''/'' (py_replace (BSL # ''u0026'') ''&'' m))"

text \<open>\<open>clean_url.startswith('http') and any(ext in clean_url for ext in ['.mp4', '.jpg',
  '.jpeg'])\<close>.\<close>

definition media_ok :: "string \<Rightarrow> bool" where
  "media_ok u =
     (starts_with ''http'' u \<and> (py_contains ''.mp4'' u \<or> py_contains ''.jpg'' u \<or> py_contains ''.jpeg'' u))"

text \<open>The inner loop: the first match whose cleaned URL is usable (\<open>break\<close>).\<close>

fun first_media :: "string list \<Rightarrow> string option" where
  "first_media [] = None"
| "first_media (m # ms) = (if media_ok (clean_url m) then Some (clean_url m) else first_media ms)"

text \<open>The outer loop: patterns in order, stopping at the first that yields a link.\<close>

fun pick_media :: "(string \<times> (string \<Rightarrow> bool)) list \<Rightarrow> string \<Rightarrow> string option" where
  "pick_media [] content = None"
| "pick_media ((lit, ok) # ps) content =
     (case first_media (findall_quoted lit ok content) of
        Some u \<Rightarrow> Some u
      | None \<Rightarrow> pick_media ps content)"

text \<open>How a page's JSON writes a URL: \<open>/\<close> as \<open>\/\<close> and \<open>&\<close> as \<open>\u0026\<close>, the
  two escapes line 178 undoes (the page's encoder, not code of the repository).\<close>

definition json_escape_url :: "string \<Rightarrow> string" where
  "json_escape_url u =
     concat (map (\<lambda>c. if c = CHR ''/'' then [BSL, CHR ''/''] else if c = CHR ''&'' then BSL # ''u0026'' else [c]) u)"

definition escape_slash :: "string \<Rightarrow> string" where
  "escape_slash u = concat (map (\<lambda>c. if c = CHR ''/'' then [BSL, CHR ''/''] else [c]) u)"

subsection \<open>Properties\<close>

lemma shortcode_take:
  "\<forall>c\<in>set code. shortcode_char c \<Longrightarrow> (rest = [] \<or> \<not> shortcode_char (hd rest)) \<Longrightarrow>
     takeWhile shortcode_char (code @ rest) = code"
  by (cases rest) (simp_all add: takeWhile_append2)

lemma shortcode_at_sound:
  "shortcode_at ms s = Some code \<Longrightarrow>
     code \<noteq> [] \<and> (\<forall>c\<in>set code. shortcode_char c) \<and> (\<exists>m\<in>set ms. prefix (m @ code) s)"
proof (induction ms s rule: shortcode_at.induct)
  case (1 s)
  then show ?case by simp
next
  case (2 m ms s)
  show ?case
  proof (cases "starts_with m s \<and> takeWhile shortcode_char (drop (length m) s) \<noteq> []")
    case True
    then obtain r where s: "s = m @ r" by (auto simp: prefix_def)
    have "prefix (takeWhile shortcode_char r) r" by (simp add: takeWhile_is_prefix)
    then have "prefix (m @ takeWhile shortcode_char r) s" by (simp add: s)
    with True 2(2) s show ?thesis by (auto dest: set_takeWhileD)
  next
    case False
    with 2 show ?thesis by auto
  qed
qed

lemma search_shortcode_host:
  "search_shortcode (''https://www.instagram.com'' @ t) = search_shortcode t"
  by (simp add: shortcode_markers_def)

lemma search_shortcode_marker:
  "m \<in> set shortcode_markers \<Longrightarrow> code \<noteq> [] \<Longrightarrow> \<forall>c\<in>set code. shortcode_char c \<Longrightarrow>
   rest = [] \<or> \<not> shortcode_char (hd rest) \<Longrightarrow> search_shortcode (m @ code @ rest) = Some code"
proof -
  assume m: "m \<in> set shortcode_markers" and c: "code \<noteq> []"
    and cs: "\<forall>c\<in>set code. shortcode_char c" and r: "rest = [] \<or> \<not> shortcode_char (hd rest)"
  have tw: "takeWhile shortcode_char (code @ rest) = code" by (rule shortcode_take [OF cs r])
  have at: "shortcode_at shortcode_markers (m @ code @ rest) = Some code"
    using m c by (auto simp: shortcode_markers_def tw)
  obtain c0 cs0 where eq: "m @ code @ rest = c0 # cs0"
    using m by (cases "m @ code @ rest") (auto simp: shortcode_markers_def)
  show ?thesis using at by (simp only: eq search_shortcode.simps(2) option.case)
qed

text \<open>C17: the shortcode of a post, reel or TV URL of the usual shape is found: the
  search returns exactly the run of shortcode characters after \<open>/p/\<close>, \<open>/reel/\<close> or
  \<open>/tv/\<close>.\<close>

theorem search_shortcode_post_url:
  "kind \<in> set [''p/'', ''reel/'', ''tv/''] \<Longrightarrow> code \<noteq> [] \<Longrightarrow> \<forall>c\<in>set code. shortcode_char c \<Longrightarrow>
   rest = [] \<or> \<not> shortcode_char (hd rest) \<Longrightarrow>
     search_shortcode (''https://www.instagram.com/'' @ kind @ code @ rest) = Some code"
proof -
  assume k: "kind \<in> set [''p/'', ''reel/'', ''tv/'']" and c: "code \<noteq> []"
    and cs: "\<forall>c\<in>set code. shortcode_char c" and r: "rest = [] \<or> \<not> shortcode_char (hd rest)"
  from k have m: "CHR ''/'' # kind \<in> set shortcode_markers" by (auto simp: shortcode_markers_def)
  have "''https://www.instagram.com/'' @ kind @ code @ rest =
      ''https://www.instagram.com'' @ (CHR ''/'' # kind) @ code @ rest" by simp
  then show ?thesis
    by (simp only: search_shortcode_host search_shortcode_marker [OF m c cs r])
qed

theorem search_shortcode_post_url_witness:
  "search_shortcode (''https://www.instagram.com/'' @ ''reel/'' @ ''Cx_9-a'' @ ''/?igsh=1'') = Some ''Cx_9-a''"
proof -
  have k: "''reel/'' \<in> set [''p/'', ''reel/'', ''tv/'']" by simp
  have c: "\<forall>c\<in>set ''Cx_9-a''. shortcode_char c" by (simp add: shortcode_char_def)
  have r: "''/?igsh=1'' = [] \<or> \<not> shortcode_char (hd ''/?igsh=1'')" by (simp add: shortcode_char_def)
  show ?thesis by (rule search_shortcode_post_url [OF k _ c r]) simp
qed

text \<open>C18: whatever the search returns is a non-empty run of shortcode characters that
  occurs in the URL right after one of the three path markers.\<close>

theorem search_shortcode_sound:
  "search_shortcode u = Some code \<Longrightarrow>
     code \<noteq> [] \<and> (\<forall>c\<in>set code. shortcode_char c) \<and> (\<exists>m\<in>set shortcode_markers. sublist (m @ code) u)"
proof (induction u)
  case Nil
  then show ?case by simp
next
  case (Cons c cs)
  show ?case
  proof (cases "shortcode_at shortcode_markers (c # cs)")
    case None
    with Cons show ?thesis by (auto intro: sublist_Cons_right [THEN iffD2])
  next
    case (Some r)
    with Cons.prems have "shortcode_at shortcode_markers (c # cs) = Some code" by simp
    then show ?thesis by (auto dest!: shortcode_at_sound intro: prefix_imp_sublist)
  qed
qed

theorem search_shortcode_sound_witness:
  "''Cx_9-a'' \<noteq> [] \<and> list_all shortcode_char ''Cx_9-a'' \<and>
   (sublist (''/p/'' @ ''Cx_9-a'') ''https://www.instagram.com/reel/Cx_9-a/'' \<or>
    sublist (''/reel/'' @ ''Cx_9-a'') ''https://www.instagram.com/reel/Cx_9-a/'' \<or>
    sublist (''/tv/'' @ ''Cx_9-a'') ''https://www.instagram.com/reel/Cx_9-a/'')"
proof -
  have h: "search_shortcode ''https://www.instagram.com/reel/Cx_9-a/'' = Some ''Cx_9-a''"
    by (simp add: shortcode_markers_def shortcode_char_def)
  show ?thesis using search_shortcode_sound [OF h]
    by (simp only: list_all_iff shortcode_markers_def list.set bex_simps insert_iff empty_iff simp_thms) blast
qed

lemma clean_url_no_backslash: "BSL \<notin> set (clean_url m)"
  by (simp add: clean_url_def py_replace_char_removes)

lemma clean_amp: "BSL \<notin> set u \<Longrightarrow> py_replace (BSL # ''u0026'') ''&'' (json_escape_url u) = escape_slash u"
  by (induction u) (auto simp: py_replace_def json_escape_url_def escape_slash_def BSL_def)

lemma clean_slash: "BSL \<notin> set u \<Longrightarrow> py_replace [BSL, CHR ''/''] ''/'' (escape_slash u) = u"
  by (induction u) (auto simp: py_replace_def escape_slash_def BSL_def)

lemma clean_bsl: "BSL \<notin> set u \<Longrightarrow> py_replace [BSL] [] u = u"
  by (induction u) (auto simp: py_replace_def replace_nonempty_single_char)

text \<open>C19: round trip: the clean-up of line 178 recovers a URL (one without backslash) from
  its JSON-escaped form in the page, where \<open>/\<close> is written \<open>\/\<close> and \<open>&\<close> is written
  \<open>\u0026\<close>; the three replacements are applied in the order that makes this hold.\<close>

theorem clean_url_json_escape: "BSL \<notin> set u \<Longrightarrow> clean_url (json_escape_url u) = u"
  by (simp add: clean_url_def clean_amp clean_slash clean_bsl)

theorem clean_url_json_escape_witness:
  "clean_url (json_escape_url ''https://cdn.x/v.mp4?a=1&b=2'') = ''https://cdn.x/v.mp4?a=1&b=2''"
  by (rule clean_url_json_escape) (simp add: BSL_def)

lemma first_media_ok: "first_media ms = Some u \<Longrightarrow> media_ok u \<and> (\<exists>m\<in>set ms. u = clean_url m)"
  by (induction ms) (auto split: if_splits)

lemma pick_media_ok:
  "pick_media ps content = Some u \<Longrightarrow> media_ok u \<and> (\<exists>m. u = clean_url m)"
  by (induction ps content rule: pick_media.induct) (auto split: option.splits dest: first_media_ok)

lemma pick_media_clean: "pick_media ps content = Some u \<Longrightarrow> media_ok u \<and> BSL \<notin> set u"
  using pick_media_ok [of ps content u] clean_url_no_backslash by auto

end
