(* ===== verification/Instagram.thy ===== *)
theory Instagram
  imports Extractors Scrape
begin

text \<open>
  The Instagram strategies that talk to Instagram directly and the orchestrator that
  tries the three strategies in order, from \<open>src/attached_assets/app_1750480725733.py\<close>:
  \<open>extract_instagram\<close> (lines 28--45), \<open>_instagram_api_method\<close> (86--134),
  \<open>_instagram_embed_method\<close> (136--202) and \<open>_parse_instagram_media\<close> (204--226).
  The shared \<open>requests.Session\<close> is an oracle \<open>http\<close>: given a request it returns a
  response (status code, the result of \<open>response.json()\<close>, \<open>response.text\<close>) or
  raises. A request is described by what determines it: the GraphQL query hash and
  shortcode, or the page URL; the fixed headers are not modelled. The \<open>print\<close> of each
  failed method is kept as a log of (method name, exception).
\<close>

record response =
  status_code :: int
  resp_json :: "exc + pyval"
  resp_text :: string

datatype http_req = GraphQLGet string string | PageGet string

type_synonym http = "http_req \<Rightarrow> exc + response"

text \<open>\<open>k in v\<close> for a string \<open>k\<close>: a key of a dictionary, an element of a list, a
  substring of a string; any other value raises \<open>TypeError\<close>.\<close>

fun py_in :: "string \<Rightarrow> pyval \<Rightarrow> exc + bool" where
  "py_in k (PDict d) = Inr (dict_has d k)"
| "py_in k (PList xs) = Inr (PStr k \<in> set xs)"
| "py_in k (PStr s) = Inr (py_contains k s)"
| "py_in k _ = Inl TypeError"

subsection \<open>\<open>_parse_instagram_media\<close>\<close>

text \<open>\<open>media.get('edge_media_to_caption', {}).get('edges', [{}])[0].get('node', {})
  .get('text', 'Instagram Media')[:50]\<close>.\<close>

definition caption_title :: "pyval \<Rightarrow> exc + pyval" where
  "caption_title media =
     exc_bind (py_get media ''edge_media_to_caption'' (PDict [])) (\<lambda>e1.
     exc_bind (py_get e1 ''edges'' (PList [PDict []])) (\<lambda>e2.
     exc_bind (py_first e2) (\<lambda>e3.
     exc_bind (py_get e3 ''node'' (PDict [])) (\<lambda>e4.
     exc_bind (py_get e4 ''text'' (PStr ''Instagram Media'')) (\<lambda>t.
       py_slice_to 50 t)))))"

definition parse_instagram_media :: "pyval \<Rightarrow> exc + ext_result" where
  "parse_instagram_media media =
     exc_bind (py_get media ''is_video'' PNone) (\<lambda>iv.
     exc_bind (if py_truthy iv then exc_bind (py_get media ''video_url'' PNone) (\<lambda>v. Inr (py_truthy v))
               else Inr False) (\<lambda>is_video.
     exc_bind (if is_video then
                 exc_bind (py_getitem media ''video_url'') (\<lambda>u.
                   Inr [\<lparr>link_label = ''Instagram Video'', link_url = u, link_quality = ''original''\<rparr>])
               else exc_bind (py_get media ''display_url'' PNone) (\<lambda>du.
                 if py_truthy du then
                   exc_bind (py_getitem media ''display_url'') (\<lambda>u.
                     Inr [\<lparr>link_label = ''Instagram Image'', link_url = u, link_quality = ''original''\<rparr>])
                 else Inr [])) (\<lambda>links.
     exc_bind (caption_title media) (\<lambda>title.
       Inr (Success \<lparr>res_links = links, res_title = title, res_source = ''instagram_api''\<rparr>)))))"

subsection \<open>\<open>_instagram_api_method\<close>\<close>

definition query_hashes :: "string list" where
  "query_hashes = [''9f8827793ef34641b2fb195d4d41151c'', ''e769aa130647d2354c40ea6a439bfc08'']"

text \<open>One pass of the loop body inside its \<open>try\<close>: \<open>Inr (Some r)\<close> returns \<open>r\<close>,
  \<open>Inr None\<close> falls through to the next hash, \<open>Inl\<close> is caught by the bare
  \<open>except\<close> and also goes on to the next hash.\<close>

definition api_attempt :: "http \<Rightarrow> string \<Rightarrow> string \<Rightarrow> exc + ext_result option" where
  "api_attempt http shortcode query_hash =
     exc_bind (http (GraphQLGet query_hash shortcode)) (\<lambda>resp.
       if status_code resp = 200 then
         exc_bind (resp_json resp) (\<lambda>data.
         exc_bind (py_in ''data'' data) (\<lambda>has_data.
         exc_bind (if has_data then exc_bind (py_getitem data ''data'') (py_in ''shortcode_media'')
                   else Inr False) (\<lambda>has_media.
           if has_media then
             exc_bind (py_getitem data ''data'') (\<lambda>d.
             exc_bind (py_getitem d ''shortcode_media'') (\<lambda>media.
             exc_bind (parse_instagram_media media) (\<lambda>r. Inr (Some r))))
           else Inr None)))
       else Inr None)"

fun try_query_hashes :: "http \<Rightarrow> string \<Rightarrow> string list \<Rightarrow> exc + ext_result" where
  "try_query_hashes http shortcode [] = Inl (Raised ''Instagram API extraction failed'')"
| "try_query_hashes http shortcode (qh # qhs) =
     (case api_attempt http shortcode qh of
        Inr (Some r) \<Rightarrow> Inr r
      | _ \<Rightarrow> try_query_hashes http shortcode qhs)"

definition instagram_api_method :: "http \<Rightarrow> string \<Rightarrow> exc + ext_result" where
  "instagram_api_method http url =
     (case search_shortcode url of
        None \<Rightarrow> Inl (Raised ''Invalid Instagram URL format'')
      | Some shortcode \<Rightarrow> try_query_hashes http shortcode query_hashes)"

subsection \<open>\<open>_instagram_embed_method\<close>\<close>

definition embed_urls :: "string \<Rightarrow> string list" where
  "embed_urls shortcode =
     [''https://www.instagram.com/p/'' @ shortcode @ ''/embed/'',
      ''https://www.instagram.com/p/'' @ shortcode @ ''/?__a=1'']"

definition embed_link :: "string \<Rightarrow> media_link" where
  "embed_link u =
     \<lparr>link_label = (if py_contains ''.mp4'' u then ''Instagram Video'' else ''Instagram Image''),
      link_url = PStr u, link_quality = ''original''\<rparr>"

fun try_embed_pages :: "http \<Rightarrow> string list \<Rightarrow> exc + ext_result" where
  "try_embed_pages http [] = Inl (Raised ''No media found in embed'')"
| "try_embed_pages http (embed_url # rest) =
     (case http (PageGet embed_url) of
        Inl _ \<Rightarrow> try_embed_pages http rest
      | Inr resp \<Rightarrow>
          (case pick_media embed_patterns (resp_text resp) of
             Some u \<Rightarrow> Inr (Success \<lparr>res_links = [embed_link u], res_title = PStr ''Instagram Media'',
                                      res_source = ''embed''\<rparr>)
           | None \<Rightarrow> try_embed_pages http rest))"

definition instagram_embed_method :: "http \<Rightarrow> string \<Rightarrow> exc + ext_result" where
  "instagram_embed_method http url =
     (case search_shortcode url of
        None \<Rightarrow> Inl (Raised ''Invalid Instagram URL format'')
      | Some shortcode \<Rightarrow> try_embed_pages http (embed_urls shortcode))"

subsection \<open>\<open>extract_instagram\<close>\<close>

type_synonym strategy = "string \<Rightarrow> exc + ext_result"

text \<open>The loop over \<open>methods\<close>: the first successful result is returned; a result with
  \<open>success\<close> false is skipped silently; an exception is printed with the method's name
  and skipped. The log is what is printed.\<close>

fun first_success :: "(string \<times> strategy) list \<Rightarrow> string \<Rightarrow> (string \<times> exc) list \<times> ext_result" where
  "first_success [] url = ([], Failure ''All Instagram extraction methods failed'')"
| "first_success ((name, method) # methods) url =
     (case method url of
        Inr (Success e) \<Rightarrow> ([], Success e)
      | Inr (Failure _) \<Rightarrow> first_success methods url
      | Inl ex \<Rightarrow> (let (log, r) = first_success methods url in ((name, ex) # log, r)))"

definition instagram_methods :: "ydl \<Rightarrow> http \<Rightarrow> (string \<times> strategy) list" where
  "instagram_methods ydl http =
     [(''_instagram_yt_dlp'', instagram_yt_dlp ydl),
      (''_instagram_api_method'', instagram_api_method http),
      (''_instagram_embed_method'', instagram_embed_method http)]"

definition extract_instagram :: "ydl \<Rightarrow> http \<Rightarrow> string \<Rightarrow> (string \<times> exc) list \<times> ext_result" where
  "extract_instagram ydl http url = first_success (instagram_methods ydl http) url"

subsection \<open>Properties of the orchestrator\<close>

lemma first_success_Success:
  "method url = Inr (Success e) \<Longrightarrow> first_success ((name, method) # methods) url = ([], Success e)"
  by simp

lemma first_success_raise:
  "method url = Inl ex \<Longrightarrow>
     first_success ((name, method) # methods) url =
       ((name, ex) # fst (first_success methods url), snd (first_success methods url))"
  by (simp add: case_prod_beta)

lemmas first_success_steps = first_success_Success first_success_raise

text \<open>C20: when \<open>_instagram_yt_dlp\<close> succeeds, \<open>extract_instagram\<close> returns its result
  and logs nothing, whatever Instagram's API and pages would answer: the other two
  strategies are not consulted.\<close>

theorem extract_instagram_first_wins:
  "instagram_yt_dlp ydl url = Inr (Success e) \<Longrightarrow> extract_instagram ydl http url = ([], Success e)"
  by (simp add: extract_instagram_def instagram_methods_def)

theorem extract_instagram_first_wins_witness:
  "extract_instagram (\<lambda>_ _. Inr [(''url'', PStr ''https://cdn/x.mp4'')]) (\<lambda>_. Inl (ExtError ''unused''))
     ''https://www.instagram.com/p/ABC123/'' =
   ([], Success \<lparr>res_links = [\<lparr>link_label = ''Instagram Media'', link_url = PStr ''https://cdn/x.mp4'',
        link_quality = ''original''\<rparr>], res_title = PStr ''Instagram Media'', res_source = ''yt-dlp''\<rparr>)"
proof -
  have h: "instagram_yt_dlp (\<lambda>_ _. Inr [(''url'', PStr ''https://cdn/x.mp4'')]) ''https://www.instagram.com/p/ABC123/'' =
      Inr (Success \<lparr>res_links = [\<lparr>link_label = ''Instagram Media'', link_url = PStr ''https://cdn/x.mp4'',
        link_quality = ''original''\<rparr>], res_title = PStr ''Instagram Media'', res_source = ''yt-dlp''\<rparr>)"
    by (simp add: extractor_defs)
  show ?thesis by (rule extract_instagram_first_wins [OF h])
qed

lemma try_embed_pages_result:
  "try_embed_pages http urls = Inr r \<Longrightarrow>
     \<exists>u. r = Success \<lparr>res_links = [embed_link u], res_title = PStr ''Instagram Media'', res_source = ''embed''\<rparr> \<and>
         media_ok u \<and> BSL \<notin> set u"
  by (induction http urls rule: try_embed_pages.induct)
     (auto split: sum.splits option.splits dest: pick_media_clean)

lemma instagram_embed_method_result:
  "instagram_embed_method http url = Inr r \<Longrightarrow>
     \<exists>u. r = Success \<lparr>res_links = [embed_link u], res_title = PStr ''Instagram Media'', res_source = ''embed''\<rparr> \<and>
         media_ok u \<and> BSL \<notin> set u"
  by (auto simp: instagram_embed_method_def split: option.splits dest: try_embed_pages_result)

text \<open>C21: when the first two strategies raise and the embed scrape succeeds, the result
  is the embed scrape's, with source \<open>embed\<close>, and the two failures are logged in
  order.\<close>

theorem extract_instagram_embed_fallback:
  "instagram_yt_dlp ydl url = Inl e1 \<Longrightarrow> instagram_api_method http url = Inl e2 \<Longrightarrow>
   instagram_embed_method http url = Inr r \<Longrightarrow>
     \<exists>e. extract_instagram ydl http url =
           ([(''_instagram_yt_dlp'', e1), (''_instagram_api_method'', e2)], Success e) \<and>
         res_source e = ''embed''"
  by (auto simp: extract_instagram_def instagram_methods_def first_success_steps
      dest!: instagram_embed_method_result)

theorem extract_instagram_embed_fallback_witness:
  "\<exists>e. extract_instagram (\<lambda>_ _. Inl (ExtError ''login required'')) (\<lambda>r. case r of GraphQLGet _ _ \<Rightarrow> Inl (ExtError ''429'') | PageGet _ \<Rightarrow> Inr \<lparr>status_code = 200, resp_json = Inl ValueError, resp_text = (''x '' @ [DQ] @ ''video_url'' @ [DQ, CHR '':'', DQ] @ ''https://cdn.example/v.mp4'' @ [DQ])\<rparr>) ''https://www.instagram.com/p/ABC123/'' =
        ([(''_instagram_yt_dlp'', ExtError ''login required''),
          (''_instagram_api_method'', Raised ''Instagram API extraction failed'')], Success e) \<and>
       res_source e = ''embed''"
proof -
  have h1: "instagram_yt_dlp (\<lambda>_ _. Inl (ExtError ''login required'')) ''https://www.instagram.com/p/ABC123/'' = Inl (ExtError ''login required'')"
    by (simp add: instagram_yt_dlp_def)
  have sc: "search_shortcode ''https://www.instagram.com/p/ABC123/'' = Some ''ABC123''"
    by (simp add: shortcode_markers_def shortcode_char_def)
  have h2: "instagram_api_method (\<lambda>r. case r of GraphQLGet _ _ \<Rightarrow> Inl (ExtError ''429'') | PageGet _ \<Rightarrow> Inr \<lparr>status_code = 200, resp_json = Inl ValueError, resp_text = (''x '' @ [DQ] @ ''video_url'' @ [DQ, CHR '':'', DQ] @ ''https://cdn.example/v.mp4'' @ [DQ])\<rparr>) ''https://www.instagram.com/p/ABC123/'' = Inl (Raised ''Instagram API extraction failed'')"
    by (simp only: instagram_api_method_def sc option.case) (simp add: query_hashes_def api_attempt_def)
  have h3: "instagram_embed_method (\<lambda>r. case r of GraphQLGet _ _ \<Rightarrow> Inl (ExtError ''429'') | PageGet _ \<Rightarrow> Inr \<lparr>status_code = 200, resp_json = Inl ValueError, resp_text = (''x '' @ [DQ] @ ''video_url'' @ [DQ, CHR '':'', DQ] @ ''https://cdn.example/v.mp4'' @ [DQ])\<rparr>) ''https://www.instagram.com/p/ABC123/'' =
      Inr (Success \<lparr>res_links = [embed_link ''https://cdn.example/v.mp4''], res_title = PStr ''Instagram Media'',
        res_source = ''embed''\<rparr>)"
    by (simp only: instagram_embed_method_def sc option.case) (simp add: embed_urls_def, code_simp)
  show ?thesis by (rule extract_instagram_embed_fallback [OF h1 h2 h3])
qed

text \<open>C22: when all three strategies raise, \<open>extract_instagram\<close> returns the failure
  \<open>All Instagram extraction methods failed\<close> and logs the three exceptions in order.\<close>

theorem extract_instagram_all_fail:
  "instagram_yt_dlp ydl url = Inl e1 \<Longrightarrow> instagram_api_method http url = Inl e2 \<Longrightarrow>
   instagram_embed_method http url = Inl e3 \<Longrightarrow>
     extract_instagram ydl http url =
       ([(''_instagram_yt_dlp'', e1), (''_instagram_api_method'', e2), (''_instagram_embed_method'', e3)],
        Failure ''All Instagram extraction methods failed'')"
  by (simp add: extract_instagram_def instagram_methods_def first_success_steps)

theorem extract_instagram_all_fail_witness:
  "extract_instagram (\<lambda>_ _. Inl (ExtError ''login required'')) (\<lambda>_. Inl (ExtError ''timeout'')) ''https://www.instagram.com/p/ABC123/'' =
     ([(''_instagram_yt_dlp'', ExtError ''login required''),
       (''_instagram_api_method'', Raised ''Instagram API extraction failed''),
       (''_instagram_embed_method'', Raised ''No media found in embed'')],
      Failure ''All Instagram extraction methods failed'')"
proof -
  have sc: "search_shortcode ''https://www.instagram.com/p/ABC123/'' = Some ''ABC123''"
    by (simp add: shortcode_markers_def shortcode_char_def)
  have h1: "instagram_yt_dlp (\<lambda>_ _. Inl (ExtError ''login required'')) ''https://www.instagram.com/p/ABC123/'' = Inl (ExtError ''login required'')"
    by (simp add: instagram_yt_dlp_def)
  have h2: "instagram_api_method (\<lambda>_. Inl (ExtError ''timeout'')) ''https://www.instagram.com/p/ABC123/'' =
      Inl (Raised ''Instagram API extraction failed'')"
    by (simp only: instagram_api_method_def sc option.case) (simp add: query_hashes_def api_attempt_def)
  have h3: "instagram_embed_method (\<lambda>_. Inl (ExtError ''timeout'')) ''https://www.instagram.com/p/ABC123/'' = Inl (Raised ''No media found in embed'')"
    by (simp only: instagram_embed_method_def sc option.case) (simp add: embed_urls_def)
  show ?thesis by (rule extract_instagram_all_fail [OF h1 h2 h3])
qed

text \<open>C23: a successful embed scrape returns exactly one link, labelled as a video when
  its URL contains \<open>.mp4\<close>, whose URL starts with \<open>http\<close>, names a media file and
  holds no backslash, with source \<open>embed\<close>.\<close>

theorem instagram_embed_method_one_link:
  "instagram_embed_method http url = Inr r \<Longrightarrow>
     \<exists>e u. r = Success e \<and> res_source e = ''embed'' \<and> res_links e = [embed_link u] \<and>
           link_label (embed_link u) = (if py_contains ''.mp4'' u then ''Instagram Video'' else ''Instagram Image'') \<and>
           starts_with ''http'' u \<and> (py_contains ''.mp4'' u \<or> py_contains ''.jpg'' u \<or> py_contains ''.jpeg'' u) \<and>
           BSL \<notin> set u"
  by (drule instagram_embed_method_result) (auto simp: media_ok_def embed_link_def)

theorem instagram_embed_method_one_link_witness:
  "\<exists>r. instagram_embed_method (\<lambda>r. case r of GraphQLGet _ _ \<Rightarrow> Inl (ExtError ''429'') | PageGet _ \<Rightarrow> Inr \<lparr>status_code = 200, resp_json = Inl ValueError, resp_text = (''x '' @ [DQ] @ ''video_url'' @ [DQ, CHR '':'', DQ] @ ''https://cdn.example/v.mp4'' @ [DQ])\<rparr>) ''https://www.instagram.com/p/ABC123/'' = Inr r \<and>
       (\<exists>e u. r = Success e \<and> res_source e = ''embed'' \<and> res_links e = [embed_link u] \<and> starts_with ''http'' u)"
proof -
  have sc: "search_shortcode ''https://www.instagram.com/p/ABC123/'' = Some ''ABC123''"
    by (simp add: shortcode_markers_def shortcode_char_def)
  have h: "instagram_embed_method (\<lambda>r. case r of GraphQLGet _ _ \<Rightarrow> Inl (ExtError ''429'') | PageGet _ \<Rightarrow> Inr \<lparr>status_code = 200, resp_json = Inl ValueError, resp_text = (''x '' @ [DQ] @ ''video_url'' @ [DQ, CHR '':'', DQ] @ ''https://cdn.example/v.mp4'' @ [DQ])\<rparr>) ''https://www.instagram.com/p/ABC123/'' =
      Inr (Success \<lparr>res_links = [embed_link ''https://cdn.example/v.mp4''], res_title = PStr ''Instagram Media'',
        res_source = ''embed''\<rparr>)"
    by (simp only: instagram_embed_method_def sc option.case) (simp add: embed_urls_def, code_simp)
  show ?thesis using h instagram_embed_method_one_link [OF h] by blast
qed

subsection \<open>Properties of the API strategy\<close>

lemma caption_title_bound:
  "caption_title media = Inr t \<Longrightarrow>
     (\<exists>s. t = PStr s \<and> utf8_length s \<le> 50) \<or> (\<exists>xs. t = PList xs \<and> length xs \<le> 50)"
  by (cases t)
     (auto simp: caption_title_def exc_bind_eq_Inr utf8_length_take elim!: py_slice_to.elims)

lemma parse_instagram_media_result:
  "parse_instagram_media media = Inr r \<Longrightarrow>
     \<exists>e. r = Success e \<and> res_source e = ''instagram_api'' \<and> length (res_links e) \<le> 1 \<and>
         caption_title media = Inr (res_title e)"
  unfolding parse_instagram_media_def by (auto simp: exc_bind_eq_Inr split: if_splits)

lemma try_query_hashes_result:
  "try_query_hashes http sc qhs = Inr r \<Longrightarrow> \<exists>qh. api_attempt http sc qh = Inr (Some r)"
  by (induction http sc qhs rule: try_query_hashes.induct) (auto split: sum.splits option.splits)

lemma api_attempt_result:
  "api_attempt http sc qh = Inr (Some r) \<Longrightarrow> \<exists>media. parse_instagram_media media = Inr r"
  unfolding api_attempt_def by (auto simp: exc_bind_eq_Inr split: if_splits)

text \<open>C24: a successful API extraction has source \<open>instagram_api\<close>, at most one link,
  and a title of at most 50 code points (the caption, or its default, cut by
  \<open>[:50]\<close>).\<close>

theorem instagram_api_method_result:
  "instagram_api_method http url = Inr r \<Longrightarrow>
     \<exists>e. r = Success e \<and> res_source e = ''instagram_api'' \<and> length (res_links e) \<le> 1 \<and>
         ((\<exists>s. res_title e = PStr s \<and> utf8_length s \<le> 50) \<or> (\<exists>xs. res_title e = PList xs \<and> length xs \<le> 50))"
  by (auto simp: instagram_api_method_def split: option.splits
      dest!: try_query_hashes_result api_attempt_result parse_instagram_media_result caption_title_bound)

theorem instagram_api_method_result_witness:
  "\<exists>r. instagram_api_method (\<lambda>_. Inr \<lparr>status_code = 200, resp_json = Inr (PDict [(''data'', PDict [(''shortcode_media'', PDict [(''is_video'', PBool True), (''video_url'', PStr ''https://cdn/v.mp4''), (''edge_media_to_caption'', PDict [(''edges'', PList [PDict [(''node'', PDict [(''text'', PStr ''hello'')])]])])])])]), resp_text = []\<rparr>) ''https://www.instagram.com/p/ABC123/'' = Inr r \<and>
       (\<exists>e. r = Success e \<and> res_source e = ''instagram_api'' \<and> length (res_links e) \<le> 1)"
proof -
  have sc: "search_shortcode ''https://www.instagram.com/p/ABC123/'' = Some ''ABC123''"
    by (simp add: shortcode_markers_def shortcode_char_def)
  have h: "instagram_api_method (\<lambda>_. Inr \<lparr>status_code = 200, resp_json = Inr (PDict [(''data'', PDict [(''shortcode_media'', PDict [(''is_video'', PBool True), (''video_url'', PStr ''https://cdn/v.mp4''), (''edge_media_to_caption'', PDict [(''edges'', PList [PDict [(''node'', PDict [(''text'', PStr ''hello'')])]])])])])]), resp_text = []\<rparr>) ''https://www.instagram.com/p/ABC123/'' =
      Inr (Success \<lparr>res_links = [\<lparr>link_label = ''Instagram Video'', link_url = PStr ''https://cdn/v.mp4'',
        link_quality = ''original''\<rparr>], res_title = PStr ''hello'', res_source = ''instagram_api''\<rparr>)"
    by (simp only: instagram_api_method_def sc option.case)
      (simp add: query_hashes_def api_attempt_def parse_instagram_media_def
        caption_title_def dict_get_def dict_has_def utf8_cont_def)
  show ?thesis using h instagram_api_method_result [OF h] by blast
qed

end
