(* ===== verification/Download.thy ===== *)
theory Download
  imports RateLimit Platform Instagram
begin

text \<open>
  The \<open>/download\<close> route, \<open>download\<close> of \<open>src/attached_assets/app_1750480725733.py\<close>
  (lines 333--397), which composes the other components: it reads the JSON body, strips
  the URL, consults the rate limiter, detects the platform, dispatches to the platform's
  extractor and turns the result into the HTTP response (the result normalizer of the
  spec). The request is given by what the handler reads from it: the outcome of
  \<open>request.get_json()\<close> (a value, or the exception Flask raises for a body that is not
  JSON) and \<open>request.remote_addr\<close>. The two calls of \<open>time.time()\<close> (in
  \<open>check_rate_limit\<close>, line 320, and for the wait message, line 345) are two inputs.
  A response is its status code and its JSON body; messages are the UTF-8 bytes of the
  source's strings.
\<close>

record http_out =
  resp_status :: nat
  resp_body :: pyval

definition json_error :: "string \<Rightarrow> pyval" where
  "json_error msg = PDict [(''success'', PBool False), (''error'', PStr msg)]"

text \<open>The emoji of the messages: U+23F0, U+274C, and U+26A0 with selector U+FE0F.\<close>

definition emoji_alarm :: string where "emoji_alarm = [CHR 0xE2, CHR 0x8F, CHR 0xB0]"
definition emoji_cross :: string where "emoji_cross = [CHR 0xE2, CHR 0x9D, CHR 0x8C]"
definition emoji_warning :: string where
  "emoji_warning = [CHR 0xE2, CHR 0x9A, CHR 0xA0, CHR 0xEF, CHR 0xB8, CHR 0x8F]"

definition msg_invalid_url :: string where "msg_invalid_url = ''Invalid URL''"

definition msg_rate_limited :: "int \<Rightarrow> string" where
  "msg_rate_limited n = emoji_alarm @ '' Rate limit exceeded. Please wait '' @ py_str_int n @ '' seconds.''"

definition msg_bad_platform :: string where
  "msg_bad_platform = emoji_cross @ '' Please provide a valid Instagram, YouTube, or TikTok URL.''"

definition msg_internal :: string where
  "msg_internal = emoji_warning @ '' Internal server error. Please try again later.''"

text \<open>Lines 345 and 348: the seconds left, \<open>int(remaining_time)\<close>, from the time of the
  second clock reading.\<close>

definition wait_seconds :: "real \<Rightarrow> real \<Rightarrow> int" where
  "wait_seconds now' t_last = py_int_of_real (RATE_LIMIT_WINDOW - (now' - t_last))"

text \<open>\<open>error_messages\<close> (lines 381--385).\<close>

fun error_message :: "platform \<Rightarrow> string" where
  "error_message Instagram = emoji_warning @
     '' Unable to fetch media from Instagram. The post might be private, deleted, or temporarily unavailable.''"
| "error_message Youtube = emoji_warning @
     '' Unable to fetch video from YouTube. The video might be private, deleted, age-restricted, or temporarily unavailable.''"
| "error_message Tiktok = emoji_warning @
     '' Unable to fetch video from TikTok. The video might be private, deleted, or temporarily unavailable.''"

text \<open>\<open>data.get('url', '').strip()\<close>: only a string has \<open>strip\<close>.\<close>

fun py_strip_val :: "pyval \<Rightarrow> exc + string" where
  "py_strip_val (PStr s) = Inr (py_strip s)"
| "py_strip_val _ = Inl AttributeError"

text \<open>Lines 336--337: the URL of the request body.\<close>

definition request_url :: "exc + pyval \<Rightarrow> exc + string" where
  "request_url json = exc_bind json (\<lambda>data. exc_bind (py_get data ''url'' (PStr [])) py_strip_val)"

definition link_json :: "media_link \<Rightarrow> pyval" where
  "link_json l = PDict [(''label'', PStr (link_label l)), (''url'', link_url l), (''quality'', PStr (link_quality l))]"

text \<open>Lines 362--369: the dispatch; only \<open>extract_instagram\<close> catches its strategies'
  exceptions.\<close>

definition run_extractor :: "ydl \<Rightarrow> http \<Rightarrow> platform \<Rightarrow> string \<Rightarrow> exc + ext_result" where
  "run_extractor ydl http p url =
     (case p of
        Instagram \<Rightarrow> Inr (snd (extract_instagram ydl http url))
      | Youtube \<Rightarrow> extract_youtube ydl url
      | Tiktok \<Rightarrow> extract_tiktok ydl url)"

text \<open>Lines 371--390: the result normalizer.\<close>

fun respond :: "platform \<Rightarrow> ext_result \<Rightarrow> http_out" where
  "respond p (Success e) =
     \<lparr>resp_status = 200,
      resp_body = PDict [(''success'', PBool True), (''links'', PList (map link_json (res_links e))),
                         (''title'', res_title e), (''source'', PStr (res_source e)),
                         (''platform'', PStr (platform_name p))]\<rparr>"
| "respond p (Failure err) = \<lparr>resp_status = 500, resp_body = json_error (error_message p)\<rparr>"

text \<open>The body of the \<open>try\<close>: the new store and the response, or an exception together
  with the store as it was when the exception was raised.\<close>

definition download_body ::
  "ydl \<Rightarrow> http \<Rightarrow> 'c rl_store \<Rightarrow> real \<Rightarrow> real \<Rightarrow> exc + pyval \<Rightarrow> 'c \<Rightarrow>
     (exc \<times> 'c rl_store) + ('c rl_store \<times> http_out)" where
  "download_body ydl http st now now' json client_ip =
     (case request_url json of
        Inl e \<Rightarrow> Inl (e, st)
      | Inr url \<Rightarrow>
          if url = [] then Inr (st, \<lparr>resp_status = 400, resp_body = json_error msg_invalid_url\<rparr>)
          else
            (let (ok, st') = check_rate_limit st now client_ip in
             if \<not> ok then
               (case st' client_ip of
                  None \<Rightarrow> Inl (KeyError [], st')
                | Some t_last \<Rightarrow>
                    Inr (st', \<lparr>resp_status = 429,
                               resp_body = json_error (msg_rate_limited (wait_seconds now' t_last))\<rparr>))
             else
               (case detect_platform url of
                  None \<Rightarrow> Inr (st', \<lparr>resp_status = 400, resp_body = json_error msg_bad_platform\<rparr>)
                | Some p \<Rightarrow>
                    (case run_extractor ydl http p url of
                       Inl e \<Rightarrow> Inl (e, st')
                     | Inr result \<Rightarrow> Inr (st', respond p result)))))"

text \<open>The \<open>except Exception\<close> of lines 392--397: any exception becomes the fixed
  internal-error response; the store keeps what was written before it.\<close>

definition download ::
  "ydl \<Rightarrow> http \<Rightarrow> 'c rl_store \<Rightarrow> real \<Rightarrow> real \<Rightarrow> exc + pyval \<Rightarrow> 'c \<Rightarrow> 'c rl_store \<times> http_out" where
  "download ydl http st now now' json client_ip =
     (case download_body ydl http st now now' json client_ip of
        Inl (e, st') \<Rightarrow> (st', \<lparr>resp_status = 500, resp_body = json_error msg_internal\<rparr>)
      | Inr r \<Rightarrow> r)"

subsection \<open>The handler's paths\<close>

text \<open>One lemma per path of the handler; the properties below are read off them.\<close>

lemma download_request_error:
  "request_url json = Inl e \<Longrightarrow>
     download ydl http st now now' json c = (st, \<lparr>resp_status = 500, resp_body = json_error msg_internal\<rparr>)"
  by (simp add: download_def download_body_def)

lemma download_empty:
  "request_url json = Inr [] \<Longrightarrow>
     download ydl http st now now' json c = (st, \<lparr>resp_status = 400, resp_body = json_error msg_invalid_url\<rparr>)"
  by (simp add: download_def download_body_def)

lemma download_refused:
  "request_url json = Inr u \<Longrightarrow> u \<noteq> [] \<Longrightarrow> st c = Some l \<Longrightarrow> now - l < RATE_LIMIT_WINDOW \<Longrightarrow>
     download ydl http st now now' json c =
       (st, \<lparr>resp_status = 429, resp_body = json_error (msg_rate_limited (wait_seconds now' l))\<rparr>)"
  by (simp add: download_def download_body_def check_rate_limit_def)

lemma download_accepted:
  "request_url json = Inr u \<Longrightarrow> u \<noteq> [] \<Longrightarrow> check_rate_limit st now c = (True, st') \<Longrightarrow>
     download ydl http st now now' json c =
       (st', case detect_platform u of
               None \<Rightarrow> \<lparr>resp_status = 400, resp_body = json_error msg_bad_platform\<rparr>
             | Some p \<Rightarrow> (case run_extractor ydl http p u of
                   Inl e \<Rightarrow> \<lparr>resp_status = 500, resp_body = json_error msg_internal\<rparr>
                 | Inr r \<Rightarrow> respond p r))"
  by (simp add: download_def download_body_def split: option.split sum.split)

lemma run_extractor_instagram: "run_extractor ydl http Instagram u = Inr (snd (extract_instagram ydl http u))"
  by (simp add: run_extractor_def)

lemma detect_platform_Some_nonempty: "detect_platform u = Some p \<Longrightarrow> u \<noteq> []"
proof -
  have "detect_platform [] = None" by code_simp
  then show "detect_platform u = Some p \<Longrightarrow> u \<noteq> []" by auto
qed



subsection \<open>Properties of the handler\<close>

text \<open>C25: every response of \<open>/download\<close> is a success built by the result normalizer
  or carries one of the handler's fixed messages: invalid input (400), rate limited (429),
  extraction failed (500, one message per platform) or internal fault (500). No exception
  text and no strategy error reaches the client.\<close>

theorem download_fixed_messages:
  "(\<exists>p e. snd (download ydl http st now now' json c) = respond p (Success e)) \<or>
   snd (download ydl http st now now' json c) = \<lparr>resp_status = 400, resp_body = json_error msg_invalid_url\<rparr> \<or>
   snd (download ydl http st now now' json c) = \<lparr>resp_status = 400, resp_body = json_error msg_bad_platform\<rparr> \<or>
   (\<exists>n. snd (download ydl http st now now' json c) = \<lparr>resp_status = 429, resp_body = json_error (msg_rate_limited n)\<rparr>) \<or>
   (\<exists>p. snd (download ydl http st now now' json c) = \<lparr>resp_status = 500, resp_body = json_error (error_message p)\<rparr>) \<or>
   snd (download ydl http st now now' json c) = \<lparr>resp_status = 500, resp_body = json_error msg_internal\<rparr>"
proof (cases "request_url json")
  case (Inl e)
  then show ?thesis by (simp add: download_request_error)
next
  case (Inr u)
  show ?thesis
  proof (cases "u = []")
    case True
    then show ?thesis using Inr by (simp add: download_empty)
  next
    case ne: False
    show ?thesis
    proof (cases "\<exists>l. st c = Some l \<and> now - l < RATE_LIMIT_WINDOW")
      case True
      then obtain l where "st c = Some l" "now - l < RATE_LIMIT_WINDOW" by blast
      then show ?thesis using download_refused [OF Inr ne] by fastforce
    next
      case False
    then have acc: "check_rate_limit st now c = (True, st(c \<mapsto> now))"
      by (simp add: check_rate_limit_cases)
    note d = download_accepted [OF Inr ne acc, where ydl=ydl and http=http and now'=now']
    show ?thesis
    proof (cases "detect_platform u")
      case None
      then show ?thesis using d by simp
    next
      case (Some p)
      show ?thesis
      proof (cases "run_extractor ydl http p u")
        case (Inl e)
        then show ?thesis using d Some by simp
      next
        case (Inr r)
        have "(\<exists>q e. respond p r = respond q (Success e)) \<or>
              (\<exists>q. respond p r = \<lparr>resp_status = 500, resp_body = json_error (error_message q)\<rparr>)"
          by (cases r) auto
        then show ?thesis using d Some Inr by auto
      qed
    qed
  qed
  qed
qed


text \<open>C26: a URL that is empty or consists of whitespace code points only (ASCII or
  Unicode whitespace such as U+00A0 or U+3000, which \<open>strip()\<close> removes) is refused
  with 400 \<open>Invalid URL\<close> before the rate limiter is consulted: the store is unchanged.\<close>

theorem download_blank_url:
  "json = Inr (PDict d) \<Longrightarrow> dict_get d ''url'' (PStr []) = PStr s \<Longrightarrow>
   \<forall>cp\<in>set (utf8_split s). py_isspace_cp cp \<Longrightarrow>
     download ydl http st now now' json c = (st, \<lparr>resp_status = 400, resp_body = json_error msg_invalid_url\<rparr>)"
  by (rule download_empty) (simp add: request_url_def py_strip_empty_iff)

theorem download_blank_url_witness:
  "download (\<lambda>_ _. Inl TypeError) (\<lambda>_. Inl TypeError) [''1.2.3.4'' \<mapsto> 100] 110 110
     (Inr (PDict [(''url'', PStr ([CHR 0xC2, CHR 0xA0] @ '' \<newline> '' @ [CHR 0xE3, CHR 0x80, CHR 0x80]))])) ''1.2.3.4'' =
     ([''1.2.3.4'' \<mapsto> 100], \<lparr>resp_status = 400, resp_body = json_error msg_invalid_url\<rparr>)"
proof -
  let ?s = "[CHR 0xC2, CHR 0xA0] @ '' \<newline> '' @ [CHR 0xE3, CHR 0x80, CHR 0x80]"
  have sp: "\<forall>cp\<in>set (utf8_split ?s). py_isspace_cp cp" by code_simp
  show ?thesis
    by (rule download_blank_url [where d = "[(''url'', PStr ?s)]" and s = ?s, OF _ _ sp])
       (simp_all add: dict_get_def)
qed

text \<open>C27: a request within the window of the client's last accepted request is answered
  429, leaves the store unchanged and consults no extractor: the response does not depend
  on \<open>yt_dlp\<close> or on the network.\<close>

theorem download_rate_limited:
  "request_url json = Inr u \<Longrightarrow> u \<noteq> [] \<Longrightarrow> st c = Some l \<Longrightarrow> now - l < RATE_LIMIT_WINDOW \<Longrightarrow>
     fst (download ydl http st now now' json c) = st \<and>
     resp_status (snd (download ydl http st now now' json c)) = 429 \<and>
     download ydl http st now now' json c = download ydl' http' st now now' json c"
  by (simp add: download_refused)

theorem download_rate_limited_witness:
  "fst (download (\<lambda>_ _. Inl TypeError) (\<lambda>_. Inl TypeError) [''1.2.3.4'' \<mapsto> 100] 110 111
          (Inr (PDict [(''url'', PStr ''https://youtu.be/x'')])) ''1.2.3.4'') = [''1.2.3.4'' \<mapsto> 100] \<and>
   resp_status (snd (download (\<lambda>_ _. Inl TypeError) (\<lambda>_. Inl TypeError) [''1.2.3.4'' \<mapsto> 100] 110 111
          (Inr (PDict [(''url'', PStr ''https://youtu.be/x'')])) ''1.2.3.4'')) = 429 \<and>
   download (\<lambda>_ _. Inl TypeError) (\<lambda>_. Inl TypeError) [''1.2.3.4'' \<mapsto> 100] 110 111
          (Inr (PDict [(''url'', PStr ''https://youtu.be/x'')])) ''1.2.3.4'' =
   download (\<lambda>_ _. Inr []) (\<lambda>_. Inl ValueError) [''1.2.3.4'' \<mapsto> 100] 110 111
          (Inr (PDict [(''url'', PStr ''https://youtu.be/x'')])) ''1.2.3.4''"
  by (rule download_rate_limited [where u = "''https://youtu.be/x''" and l = 100])
     (simp_all add: request_url_def dict_get_def py_strip_ascii utf8_cont_def py_isspace_def RATE_LIMIT_WINDOW_def)

text \<open>C28: a non-empty URL of no known platform (the spec's example \<open>not a url\<close>) is
  answered 400, but the rate limiter has already recorded the client: the limiter runs
  before platform detection (lines 343 and 352).\<close>

theorem download_unknown_platform_records_client:
  "request_url json = Inr u \<Longrightarrow> u \<noteq> [] \<Longrightarrow> detect_platform u = None \<Longrightarrow> st c = None \<Longrightarrow>
     download ydl http st now now' json c =
       (st(c \<mapsto> now), \<lparr>resp_status = 400, resp_body = json_error msg_bad_platform\<rparr>)"
  by (simp add: download_accepted check_rate_limit_def)

theorem download_unknown_platform_records_client_witness:
  "download (\<lambda>_ _. Inl TypeError) (\<lambda>_. Inl TypeError) Map.empty 100 100
     (Inr (PDict [(''url'', PStr ''not a url'')])) ''1.2.3.4'' =
     ([''1.2.3.4'' \<mapsto> 100], \<lparr>resp_status = 400, resp_body = json_error msg_bad_platform\<rparr>)"
proof -
  have u: "request_url (Inr (PDict [(''url'', PStr ''not a url'')])) = Inr ''not a url''"
    by (simp add: request_url_def dict_get_def py_strip_ascii utf8_cont_def py_isspace_def)
  have p: "detect_platform ''not a url'' = None" by code_simp
  show ?thesis by (rule download_unknown_platform_records_client [OF u _ p]) simp_all
qed

text \<open>C29: an exception raised by an extractor (possible only for YouTube and TikTok)
  reaches the handler's \<open>except\<close> and becomes the internal-error response, not the
  platform's extraction-failed message; the client's request stays recorded.\<close>

theorem download_extractor_fault:
  "request_url json = Inr u \<Longrightarrow> detect_platform u = Some p \<Longrightarrow> check_rate_limit st now c = (True, st') \<Longrightarrow>
   run_extractor ydl http p u = Inl e \<Longrightarrow>
     p \<noteq> Instagram \<and>
     download ydl http st now now' json c = (st', \<lparr>resp_status = 500, resp_body = json_error msg_internal\<rparr>)"
proof -
  assume u: "request_url json = Inr u" and p: "detect_platform u = Some p"
    and acc: "check_rate_limit st now c = (True, st')" and e: "run_extractor ydl http p u = Inl e"
  have ne: "u \<noteq> []" using p by (rule detect_platform_Some_nonempty)
  show ?thesis using download_accepted [OF u ne acc] p e by (auto simp: run_extractor_def)
qed

theorem download_extractor_fault_witness:
  "download
     (\<lambda>_ _. Inr [(''formats'', PList [PDict [(''height'', PNone), (''url'', PStr ''v1'')],
                                       PDict [(''height'', PInt 720), (''url'', PStr ''v2'')]])])
     (\<lambda>_. Inl TypeError) Map.empty 100 100
     (Inr (PDict [(''url'', PStr ''https://www.youtube.com/watch?v=x'')])) ''1.2.3.4'' =
   ([''1.2.3.4'' \<mapsto> 100], \<lparr>resp_status = 500, resp_body = json_error msg_internal\<rparr>)"
proof -
  have u: "request_url (Inr (PDict [(''url'', PStr ''https://www.youtube.com/watch?v=x'')])) =
      Inr ''https://www.youtube.com/watch?v=x''"
    by (simp add: request_url_def dict_get_def py_strip_ascii utf8_cont_def py_isspace_def)
  have p: "detect_platform ''https://www.youtube.com/watch?v=x'' = Some Youtube" by code_simp
  have acc: "check_rate_limit Map.empty 100 ''1.2.3.4'' = (True, [''1.2.3.4'' \<mapsto> 100])"
    by (simp add: check_rate_limit_def)
  have e: "run_extractor
     (\<lambda>_ _. Inr [(''formats'', PList [PDict [(''height'', PNone), (''url'', PStr ''v1'')],
                                       PDict [(''height'', PInt 720), (''url'', PStr ''v2'')]])])
     (\<lambda>_. Inl TypeError) Youtube ''https://www.youtube.com/watch?v=x'' = Inl TypeError"
    by (simp add: run_extractor_def extractor_defs)
  show ?thesis using download_extractor_fault [OF u p acc e] by simp
qed


text \<open>C30: an accepted request whose URL names a platform is answered from that
  platform's extractor (\<open>extract_instagram\<close>, \<open>extract_youtube\<close> or \<open>extract_tiktok\<close>),
  with the store the limiter wrote: a success becomes 200 with the links, title, source
  and the platform's name; a failure becomes 500 with the platform's fixed message, never
  the strategy's own error text. The witness is the spec's example: the first two
  Instagram strategies raise and the embed page gives one video, answered 200 with source
  \<open>embed\<close>.\<close>

theorem download_dispatch:
  "request_url json = Inr u \<Longrightarrow> detect_platform u = Some p \<Longrightarrow> check_rate_limit st now c = (True, st') \<Longrightarrow>
   (case p of
      Instagram \<Rightarrow> Inr (snd (extract_instagram ydl http u))
    | Youtube \<Rightarrow> extract_youtube ydl u
    | Tiktok \<Rightarrow> extract_tiktok ydl u) = Inr r \<Longrightarrow>
     download ydl http st now now' json c =
       (st', case r of
               Success e \<Rightarrow>
                 \<lparr>resp_status = 200,
                  resp_body = PDict [(''success'', PBool True), (''links'', PList (map link_json (res_links e))),
                                     (''title'', res_title e), (''source'', PStr (res_source e)),
                                     (''platform'', PStr (platform_name p))]\<rparr>
             | Failure err \<Rightarrow> \<lparr>resp_status = 500, resp_body = json_error (error_message p)\<rparr>)"
proof -
  assume u: "request_url json = Inr u" and p: "detect_platform u = Some p"
    and acc: "check_rate_limit st now c = (True, st')"
    and r: "(case p of
      Instagram \<Rightarrow> Inr (snd (extract_instagram ydl http u))
    | Youtube \<Rightarrow> extract_youtube ydl u
    | Tiktok \<Rightarrow> extract_tiktok ydl u) = Inr r"
  have ne: "u \<noteq> []" using p by (rule detect_platform_Some_nonempty)
  have "run_extractor ydl http p u = Inr r" using r by (simp add: run_extractor_def)
  then show ?thesis using download_accepted [OF u ne acc] p by (cases r) simp_all
qed

theorem download_dispatch_witness:
  "download (\<lambda>_ _. Inl (ExtError ''login required''))
     (\<lambda>r. case r of GraphQLGet _ _ \<Rightarrow> Inl (ExtError ''429'') | PageGet _ \<Rightarrow> Inr \<lparr>status_code = 200, resp_json = Inl ValueError, resp_text = (''x '' @ [DQ] @ ''video_url'' @ [DQ, CHR '':'', DQ] @ ''https://cdn.example/v.mp4'' @ [DQ])\<rparr>)
     Map.empty 100 100 (Inr (PDict [(''url'', PStr ''https://www.instagram.com/p/ABC123/'')])) ''1.2.3.4'' =
   ([''1.2.3.4'' \<mapsto> 100],
    \<lparr>resp_status = 200,
     resp_body = PDict [(''success'', PBool True),
       (''links'', PList [PDict [(''label'', PStr ''Instagram Video''), (''url'', PStr ''https://cdn.example/v.mp4''),
                                (''quality'', PStr ''original'')]]),
       (''title'', PStr ''Instagram Media''), (''source'', PStr ''embed''), (''platform'', PStr ''instagram'')]\<rparr>)"
proof -
  let ?ydl = "(\<lambda>_ _. Inl (ExtError ''login required'')) :: ydl"
  let ?http = "(\<lambda>r. case r of GraphQLGet _ _ \<Rightarrow> Inl (ExtError ''429'') | PageGet _ \<Rightarrow> Inr \<lparr>status_code = 200, resp_json = Inl ValueError, resp_text = (''x '' @ [DQ] @ ''video_url'' @ [DQ, CHR '':'', DQ] @ ''https://cdn.example/v.mp4'' @ [DQ])\<rparr>) :: http"
  let ?url = "''https://www.instagram.com/p/ABC123/''"
  have u: "request_url (Inr (PDict [(''url'', PStr ?url)])) = Inr ?url"
    by (simp add: request_url_def dict_get_def py_strip_ascii utf8_cont_def py_isspace_def)
  have p: "detect_platform ?url = Some Instagram" by code_simp
  have acc: "check_rate_limit Map.empty 100 ''1.2.3.4'' = (True, [''1.2.3.4'' \<mapsto> 100])"
    by (simp add: check_rate_limit_def)
  have sc: "search_shortcode ?url = Some ''ABC123''"
    by (simp add: shortcode_markers_def shortcode_char_def)
  have h1: "instagram_yt_dlp ?ydl ?url = Inl (ExtError ''login required'')"
    by (simp add: instagram_yt_dlp_def)
  have h2: "instagram_api_method ?http ?url = Inl (Raised ''Instagram API extraction failed'')"
    by (simp only: instagram_api_method_def sc option.case) (simp add: query_hashes_def api_attempt_def)
  have h3: "instagram_embed_method ?http ?url =
      Inr (Success \<lparr>res_links = [embed_link ''https://cdn.example/v.mp4''], res_title = PStr ''Instagram Media'',
        res_source = ''embed''\<rparr>)"
    by (simp only: instagram_embed_method_def sc option.case) (simp add: embed_urls_def, code_simp)
  have r: "(case Instagram of
        Instagram \<Rightarrow> Inr (snd (extract_instagram ?ydl ?http ?url))
      | Youtube \<Rightarrow> extract_youtube ?ydl ?url
      | Tiktok \<Rightarrow> extract_tiktok ?ydl ?url) =
      Inr (Success \<lparr>res_links = [embed_link ''https://cdn.example/v.mp4''], res_title = PStr ''Instagram Media'',
        res_source = ''embed''\<rparr>)"
    by (simp only: platform.case extract_instagram_def instagram_methods_def
        first_success.simps h1 h2 h3 sum.case ext_result.case Let_def prod.case snd_conv)
  show ?thesis using download_dispatch [OF u p acc r]
    by (simp add: embed_link_def link_json_def)
qed

text \<open>C32: when the second clock reading is still within the window, the reported wait
  \<open>int(remaining_time)\<close> lies between 0 and 30, and it is 0 during the last second of
  the window: the client is told to wait 0 seconds.\<close>

theorem wait_seconds_bounds:
  "0 \<le> now' - l \<Longrightarrow> now' - l \<le> RATE_LIMIT_WINDOW \<Longrightarrow>
     0 \<le> wait_seconds now' l \<and> wait_seconds now' l \<le> 30 \<and>
     (wait_seconds now' l = 0 \<longleftrightarrow> RATE_LIMIT_WINDOW - 1 < now' - l)"
  by (auto simp: wait_seconds_def py_int_of_real_def RATE_LIMIT_WINDOW_def floor_eq_iff)

theorem wait_seconds_bounds_witness:
  "wait_seconds 129.5 100 = 0"
  using wait_seconds_bounds [of "129.5" 100] by (simp add: RATE_LIMIT_WINDOW_def)

text \<open>C33: a body that is not a JSON object (\<open>null\<close>, a list, a number, or a body
  Flask cannot parse) is answered by the internal-error response, not as invalid input;
  the store is unchanged.\<close>

theorem download_malformed_body:
  "\<forall>d. json \<noteq> Inr (PDict d) \<Longrightarrow>
     download ydl http st now now' json c = (st, \<lparr>resp_status = 500, resp_body = json_error msg_internal\<rparr>)"
proof -
  assume nd: "\<forall>d. json \<noteq> Inr (PDict d)"
  have "\<exists>e. request_url json = Inl e"
  proof (cases json)
    case (Inr v)
    then show ?thesis using nd by (cases v) (auto simp: request_url_def)
  qed (simp add: request_url_def)
  then obtain e where "request_url json = Inl e" by blast
  then show ?thesis by (rule download_request_error)
qed

theorem download_malformed_body_witness:
  "download (\<lambda>_ _. Inl TypeError) (\<lambda>_. Inl TypeError) (Map.empty :: string rl_store) 100 100 (Inr PNone) ''1.2.3.4'' =
     (Map.empty, \<lparr>resp_status = 500, resp_body = json_error msg_internal\<rparr>)"
  by (rule download_malformed_body) simp


text \<open>C31: an accepted Instagram request is always answered by the normalizer applied to
  the orchestrator's result (200 or the Instagram failure message), never by the
  internal-error response: the orchestrator catches every strategy's exception.\<close>

theorem download_instagram_never_internal:
  "request_url json = Inr u \<Longrightarrow> detect_platform u = Some Instagram \<Longrightarrow>
   check_rate_limit st now c = (True, st') \<Longrightarrow>
     download ydl http st now now' json c = (st', respond Instagram (snd (extract_instagram ydl http u)))"
proof -
  assume u: "request_url json = Inr u" and p: "detect_platform u = Some Instagram"
    and acc: "check_rate_limit st now c = (True, st')"
  have ne: "u \<noteq> []" using p by (rule detect_platform_Some_nonempty)
  show ?thesis using download_accepted [OF u ne acc] p by (simp add: run_extractor_instagram)
qed

theorem download_instagram_never_internal_witness:
  "download (\<lambda>_ _. Inl (ExtError ''login required'')) (\<lambda>_. Inl (ExtError ''timeout''))
     Map.empty 100 100 (Inr (PDict [(''url'', PStr ''https://www.instagram.com/p/ABC123/'')])) ''1.2.3.4'' =
   ([''1.2.3.4'' \<mapsto> 100], \<lparr>resp_status = 500, resp_body = json_error (error_message Instagram)\<rparr>)"
proof -
  let ?url = "''https://www.instagram.com/p/ABC123/''"
  have u: "request_url (Inr (PDict [(''url'', PStr ?url)])) = Inr ?url"
    by (simp add: request_url_def dict_get_def py_strip_ascii utf8_cont_def py_isspace_def)
  have p: "detect_platform ?url = Some Instagram" by code_simp
  have acc: "check_rate_limit Map.empty 100 ''1.2.3.4'' = (True, [''1.2.3.4'' \<mapsto> 100])"
    by (simp add: check_rate_limit_def)
  have sc: "search_shortcode ?url = Some ''ABC123''"
    by (simp add: shortcode_markers_def shortcode_char_def)
  have h1: "instagram_yt_dlp (\<lambda>_ _. Inl (ExtError ''login required'')) ?url = Inl (ExtError ''login required'')"
    by (simp add: instagram_yt_dlp_def)
  have h2: "instagram_api_method (\<lambda>_. Inl (ExtError ''timeout'')) ?url =
      Inl (Raised ''Instagram API extraction failed'')"
    by (simp only: instagram_api_method_def sc option.case) (simp add: query_hashes_def api_attempt_def)
  have h3: "instagram_embed_method (\<lambda>_. Inl (ExtError ''timeout'')) ?url = Inl (Raised ''No media found in embed'')"
    by (simp only: instagram_embed_method_def sc option.case) (simp add: embed_urls_def)
  have r: "snd (extract_instagram (\<lambda>_ _. Inl (ExtError ''login required'')) (\<lambda>_. Inl (ExtError ''timeout'')) ?url) =
      Failure ''All Instagram extraction methods failed''"
    by (simp add: extract_instagram_def instagram_methods_def first_success_steps h1 h2 h3)
  show ?thesis using download_instagram_never_internal [OF u p acc] by (simp only: r respond.simps)
qed

end
