(* ===== verification/Calls.thy ===== *)
theory Calls
  imports Download
begin

text \<open>
  The external calls a request makes: which \<open>yt_dlp\<close> extractions and which HTTP
  requests the code of \<open>src/attached_assets/app_1750480725733.py\<close> issues, in order,
  given the answers the oracles give. Each definition follows the control flow of the
  loop or function it observes (the same lines as the definition it accompanies) and
  lists the calls that loop performs before it returns. This is the call-count
  instrumentation the spec asks for; the lemma below bounds the number of calls a request
  makes.
\<close>

datatype ext_call = CallYdl ydl_call string | CallHttp http_req

text \<open>The requests of the loop over \<open>query_hashes\<close> (lines 112--132): one GraphQL query
  per hash until one returns.\<close>

fun api_calls :: "http \<Rightarrow> string \<Rightarrow> string list \<Rightarrow> http_req list" where
  "api_calls http shortcode [] = []"
| "api_calls http shortcode (qh # qhs) =
     GraphQLGet qh shortcode #
       (case api_attempt http shortcode qh of
          Inr (Some r) \<Rightarrow> []
        | _ \<Rightarrow> api_calls http shortcode qhs)"

text \<open>The requests of the loop over the embed URLs (lines 150--200).\<close>

fun embed_calls :: "http \<Rightarrow> string list \<Rightarrow> http_req list" where
  "embed_calls http [] = []"
| "embed_calls http (embed_url # rest) =
     PageGet embed_url #
       (case http (PageGet embed_url) of
          Inl _ \<Rightarrow> embed_calls http rest
        | Inr resp \<Rightarrow>
            (case pick_media embed_patterns (resp_text resp) of
               Some u \<Rightarrow> []
             | None \<Rightarrow> embed_calls http rest))"

definition api_method_calls :: "http \<Rightarrow> string \<Rightarrow> ext_call list" where
  "api_method_calls http url =
     (case search_shortcode url of
        None \<Rightarrow> []
      | Some shortcode \<Rightarrow> map CallHttp (api_calls http shortcode query_hashes))"

definition embed_method_calls :: "http \<Rightarrow> string \<Rightarrow> ext_call list" where
  "embed_method_calls http url =
     (case search_shortcode url of
        None \<Rightarrow> []
      | Some shortcode \<Rightarrow> map CallHttp (embed_calls http (embed_urls shortcode)))"

text \<open>The calls of the loop over \<open>methods\<close> (lines 36--43): each strategy is run with
  the calls it makes, until one succeeds.\<close>

fun first_success_calls :: "((string \<Rightarrow> ext_call list) \<times> strategy) list \<Rightarrow> string \<Rightarrow> ext_call list" where
  "first_success_calls [] url = []"
| "first_success_calls ((calls, method) # methods) url =
     calls url @
       (case method url of
          Inr (Success e) \<Rightarrow> []
        | _ \<Rightarrow> first_success_calls methods url)"

definition instagram_calls :: "ydl \<Rightarrow> http \<Rightarrow> string \<Rightarrow> ext_call list" where
  "instagram_calls ydl http url =
     first_success_calls
       [(\<lambda>u. [CallYdl YdlInstagram u], instagram_yt_dlp ydl),
        (api_method_calls http, instagram_api_method http),
        (embed_method_calls http, instagram_embed_method http)] url"

text \<open>The calls of the dispatch (lines 362--367) and of the handler (lines 333--369):
  none before the platform is known and the request accepted.\<close>

definition extractor_calls :: "ydl \<Rightarrow> http \<Rightarrow> platform \<Rightarrow> string \<Rightarrow> ext_call list" where
  "extractor_calls ydl http p url =
     (case p of
        Instagram \<Rightarrow> instagram_calls ydl http url
      | Youtube \<Rightarrow> [CallYdl YdlYoutube url]
      | Tiktok \<Rightarrow> [CallYdl YdlTiktok url])"

definition download_calls ::
  "ydl \<Rightarrow> http \<Rightarrow> 'c rl_store \<Rightarrow> real \<Rightarrow> exc + pyval \<Rightarrow> 'c \<Rightarrow> ext_call list" where
  "download_calls ydl http st now json client_ip =
     (case request_url json of
        Inl e \<Rightarrow> []
      | Inr url \<Rightarrow>
          if url = [] \<or> \<not> fst (check_rate_limit st now client_ip) then []
          else
            (case detect_platform url of
               None \<Rightarrow> []
             | Some p \<Rightarrow> extractor_calls ydl http p url))"

subsection \<open>Properties of the calls\<close>

lemma api_calls_length: "length (api_calls http sc qhs) \<le> length qhs"
  by (induction qhs) (auto split: sum.split option.split)

lemma embed_calls_length: "length (embed_calls http urls) \<le> length urls"
  by (induction urls) (auto split: sum.split option.split)

lemma first_success_calls_length:
  "length (first_success_calls ms url) \<le> sum_list (map (\<lambda>(calls, m). length (calls url)) ms)"
  by (induction ms url rule: first_success_calls.induct) (auto split: sum.split ext_result.split)

lemma instagram_calls_length: "length (instagram_calls ydl http url) \<le> 5"
proof -
  have lq: "length query_hashes = 2" by (simp add: query_hashes_def)
  have a: "length (api_method_calls http url) \<le> 2"
  proof (cases "search_shortcode url")
    case (Some sc)
    then show ?thesis using api_calls_length [of http sc query_hashes] lq
      by (simp add: api_method_calls_def del: api_calls.simps)
  qed (simp add: api_method_calls_def)
  have le: "length (embed_urls sc) = 2" for sc by (simp add: embed_urls_def)
  have e: "length (embed_method_calls http url) \<le> 2"
  proof (cases "search_shortcode url")
    case (Some sc)
    then show ?thesis using embed_calls_length [of http "embed_urls sc"] le [of sc]
      by (simp add: embed_method_calls_def del: embed_calls.simps)
  qed (simp add: embed_method_calls_def)
  show ?thesis
    using first_success_calls_length
      [of "[(\<lambda>u. [CallYdl YdlInstagram u], instagram_yt_dlp ydl),
            (api_method_calls http, instagram_api_method http),
            (embed_method_calls http, instagram_embed_method http)]" url] a e
    by (simp add: instagram_calls_def)
qed

text \<open>C36: termination: a request makes at most five external calls (one \<open>yt_dlp\<close>
  extraction, two GraphQL queries, two embed pages), and nothing else in the handler
  loops: every request is answered once these calls return.\<close>

theorem download_calls_at_most_five: "length (download_calls ydl http st now json c) \<le> 5"
  using instagram_calls_length [of ydl http]
  by (auto simp: download_calls_def extractor_calls_def split: sum.split option.split platform.split)

end
