(* ===== verification/Spec2Isabelle.thy ===== *)
theory Spec2Isabelle
  imports Calls
begin

text \<open>
  \<^bold>\<open>A verification library for the multi-platform media downloader\<close>
  (\<open>src/attached_assets/app_1750480725733.py\<close>, a Flask application of 407 lines).

  \<^bold>\<open>The program.\<close> One route, \<open>/download\<close>, takes a URL in a JSON body. It checks a
  per-client rate limit, detects the platform from the URL, and runs the platform's
  extractor. Instagram has three strategies tried in order by an orchestrator; YouTube and
  TikTok have one each. The route turns the extractor's result dictionary into a JSON
  response. The extractors call two libraries: \<open>yt_dlp\<close> (\<open>extract_info\<close>) and
  \<open>requests\<close> (an HTTP session).

  \<^bold>\<open>Theories, one per component, in import order.\<close>
  \<^item> \<open>Prelude\<close>: exceptions as values (\<open>exc + 'a\<close>, with \<open>exc_bind\<close>, \<open>exc_map\<close>,
    \<open>exc_filter\<close> evaluating left to right and stopping at the first exception); the
    Python string builtins the code calls (\<open>lower\<close>, \<open>in\<close>, \<open>startswith\<close>,
    \<open>replace\<close>, \<open>strip\<close>, \<open>str\<close> of an int, slicing by code point over UTF-8 bytes).
    \<open>lower\<close> and \<open>strip\<close> work on code points: \<open>strip\<close> removes Unicode whitespace
    such as U+00A0, and \<open>lower\<close> maps the Kelvin sign U+212A to \<open>k\<close>;
    \<open>int()\<close> of a float; first maxima and stable sorting.
  \<^item> \<open>PyValue\<close>: Python values (\<open>pyval\<close>), dictionaries as association lists,
    \<open>get\<close>, \<open>[]\<close>, iteration, \<open>str\<close>/\<open>repr\<close>, and CPython's \<open>max(key=)\<close> and
    \<open>sort(key=, reverse=True)\<close>, including the \<open>TypeError\<close> for keys of different kinds.
  \<^item> \<open>Platform\<close>: \<open>detect_platform\<close> (lines 307--316).
  \<^item> \<open>RateLimit\<close>: \<open>check_rate_limit\<close> and \<open>rate_limit_storage\<close> (lines 17--19,
    318--327). The store is an explicit map passed in and returned; \<open>rl_run\<close> is a
    sequence of calls; \<open>rl_decide\<close>/\<open>rl_commit\<close> are its read and write halves, and
    \<open>rl_race\<close> interleaves two threads.
  \<^item> \<open>Extractors\<close>: \<open>_instagram_yt_dlp\<close>, \<open>extract_youtube\<close>, \<open>extract_tiktok\<close>
    (lines 47--84, 228--302). \<open>yt_dlp\<close> is an oracle \<open>ydl\<close> that returns an info
    dictionary or raises.
  \<^item> \<open>Scrape\<close>: the shortcode regex (lines 89 and 138), the embed regexes and the URL
    clean-up (166--189). Each regex is the scan its engine performs.
  \<^item> \<open>Instagram\<close>: \<open>_parse_instagram_media\<close>, \<open>_instagram_api_method\<close>,
    \<open>_instagram_embed_method\<close>, and the orchestrator \<open>extract_instagram\<close>
    (lines 28--45, 86--226). \<open>requests\<close> is an oracle \<open>http\<close> from a request
    (GraphQL query or page) to a response, or an exception. The orchestrator returns its
    printed log with the result.
  \<^item> \<open>Download\<close>: the route \<open>download\<close> (lines 333--397). The store, the two
    readings of \<open>time.time()\<close>, the parsed body and the client address are inputs. The
    new store and the response (status and JSON body) are outputs. An exception in the
    \<open>try\<close> is a value caught by \<open>download\<close>.
  \<^item> \<open>Calls\<close>: the external calls a request makes, in order. Each loop that calls
    \<open>yt_dlp\<close> or \<open>requests\<close> has a companion that follows its control flow and lists
    its calls: \<open>api_calls\<close>, \<open>embed_calls\<close>, \<open>first_success_calls\<close>, up to
    \<open>download_calls\<close>. These companions are written beside the code model, following
    the same lines; they are not derived from it.

  \<^bold>\<open>What is proved\<close> (claims C1--C37).
  \<^item> Detection, C1--C5: each answer is characterised by the fragments the lower-cased
    URL contains; detection ignores case. The test is a bare substring test on the whole
    URL, so any host is accepted.
  \<^item> Rate limiter: C6--C10, C34, C35 and C37.
    \<^item> A refused request keeps the store.
    \<^item> An expired entry is renewed.
    \<^item> Accepted times of a client are a window apart in every run, with no assumption
      on the clock.
    \<^item> Entries are never removed.
    \<^item> Clients do not interfere.
    \<^item> With a monotone clock, the one-timestamp store refines the spec's history
      contract (C34).
    \<^item> Unsynchronised threads accept two requests inside one window (C35).
    \<^item> No client is starved: a request a full window after the client's earlier ones
      is accepted, whatever the others do (C37, liveness).
  \<^item> Extractors: C11--C16.
    \<^item> Given the same info, \<open>_instagram_yt_dlp\<close>'s link (chosen by \<open>max\<close>) and
      \<open>extract_youtube\<close>'s first link (after its stable descending sort) agree in URL
      and quality (C11, an equivalence).
    \<^item> Both strategies raise \<open>TypeError\<close> on unorderable heights such as \<open>None\<close>;
      for \<open>_instagram_yt_dlp\<close> exactly then (C12, C14).
    \<^item> Link counts are bounded.
    \<^item> TikTok gives one link per format with a URL.
  \<^item> Text processing: C17--C19.
    \<^item> The shortcode search is complete on the usual URL shapes and sound.
    \<^item> The clean-up inverts the page's JSON escaping (a round trip).
  \<^item> Instagram: C20--C24.
    \<^item> The first success wins, and later strategies are not consulted.
    \<^item> The embed fallback runs with its log; this is the spec's example.
    \<^item> Total failure is handled.
    \<^item> Strategy results have a fixed shape.
  \<^item> Route: C25--C33.
    \<^item> Every response is a normalised success or one of the fixed messages.
    \<^item> A blank URL leaves the store unchanged.
    \<^item> A rate-limited request consults no extractor.
    \<^item> An unknown platform still records the client.
    \<^item> YouTube and TikTok faults become internal errors.
    \<^item> Dispatch: each platform's extractor result becomes 200 with its links or 500 with
      the platform's fixed message (the spec's example end to end), and the Instagram
      path never gives an internal error.
    \<^item> The wait message stays within bounds and can say 0 seconds.
    \<^item> A malformed body gives an internal error.
  \<^item> External calls, C36 (termination): a request makes at most five external calls.
    That the handler has no other loop is a fact of the model (every other loop runs
    over a finite list), not part of the theorem.

  Each claim with a hypothesis has a witness theorem that applies it to concrete inputs:
  URLs, oracle functions, stores and times. The kernel evaluates these by \<open>simp\<close> or
  \<open>code_simp\<close>.

  \<^bold>\<open>Bounds and fuel.\<close> No fuel is needed. Every loop of the program runs over a finite
  list: formats, patterns, matches, query hashes, embed URLs, strategies. The scanners
  over strings (\<open>replace\<close>, the regex scans, code-point splitting) are \<open>function\<close>s
  with a \<open>measure\<close> on the remaining length, so every definition is total and
  executable. The handler can fail to return only inside an external call, and
  C36 bounds those calls by five. A \<open>yt_dlp\<close> call without a timeout may block forever
  (spec section 5); that is a property of the library, outside the model.

  \<^bold>\<open>Not modelled.\<close>
  \<^item> Flask routing, CORS, the \<open>/\<close> and \<open>/health\<close> routes and \<open>__main__\<close>: pure I/O.
  \<^item> The headers and options passed to \<open>requests\<close> and \<open>yt_dlp\<close>: they do not
    influence the code's decisions.
  \<^item> \<open>print\<close> calls, except the orchestrator's log.
  \<^item> The internals of \<open>yt_dlp\<close> and \<open>requests\<close>: oracles.
  \<^item> JSON serialisation and key order of \<open>jsonify\<close>.
  \<^item> Floats: times are real numbers, without rounding.
  \<^item> Ordering of Python values beyond numbers and strings: other keys are reported as
    \<open>TypeError\<close>, as CPython does for the kinds that occur (\<open>None\<close>, containers).
\<close>

end
